theory Spec2Isabelle
  imports Complex_Main
begin

section \<open>Time intervals\<close>

text \<open>
  \<^verbatim>\<open>struct timespec\<close>: whole seconds (\<^verbatim>\<open>time_t\<close>) and nanoseconds (\<^verbatim>\<open>long\<close>). A field is
  modelled by the integer it holds; the arithmetic of main.c on the fields is
  written out with its fixed size below.
\<close>

record timespec =
  tv_sec :: int
  tv_nsec :: int

text \<open>
  The widths of \<^verbatim>\<open>time_t\<close> and \<^verbatim>\<open>long\<close> are set by the platform's headers, which are
  not part of the sources; both are taken as 64-bit two's complement integers.
\<close>

definition time_t_bits :: nat where
  "time_t_bits = 64"

definition long_bits :: nat where
  "long_bits = 64"

text \<open>
  The value a \<open>w\<close>-bit two's complement field holds when the integer \<open>x\<close> is
  computed into it: \<open>x\<close> itself when it fits, wrapped around otherwise.
\<close>

definition wrap :: "nat \<Rightarrow> int \<Rightarrow> int" where
  "wrap w x = (x + 2 ^ (w - 1)) mod 2 ^ w - 2 ^ (w - 1)"

text \<open>
  The conversion of an integer to \<^verbatim>\<open>double\<close>: integers below 2^53 in magnitude are
  exact; a larger one, of \<open>n\<close> bits, is rounded to the nearest multiple of
  2^(n - 53), ties to the even significand.
\<close>

fun bit_length :: "nat \<Rightarrow> nat" where
  "bit_length n = (if n = 0 then 0 else Suc (bit_length (n div 2)))"

declare bit_length.simps [simp del]

definition round_even :: "int \<Rightarrow> nat \<Rightarrow> int" where
  "round_even x e =
     (let q = x div 2 ^ e; r = x mod 2 ^ e
      in (if 2 * r > 2 ^ e \<or> (2 * r = 2 ^ e \<and> odd q) then q + 1 else q) * 2 ^ e)"

definition to_double :: "int \<Rightarrow> int" where
  "to_double x = round_even x (bit_length (nat \<bar>x\<bar>) - 53)"

text \<open>
  \<^verbatim>\<open>TimerUtility_TimerSubtract\<close> (main.c, lines 61-70): \<open>a = s - t\<close>, borrowing one
  second when the nanosecond difference is negative. Each subtraction is computed
  into its fixed-size field. Line 68 adds the \<^verbatim>\<open>double\<close> constant \<open>1e9\<close>: the
  nanoseconds are converted to \<^verbatim>\<open>double\<close>, the sum is rounded to \<^verbatim>\<open>double\<close>, and the
  result (an integer below 1e9, so inside a \<^verbatim>\<open>long\<close>) is stored back.
\<close>

definition TimerUtility_TimerSubtract :: "timespec \<Rightarrow> timespec \<Rightarrow> timespec" where
  "TimerUtility_TimerSubtract s t =
     (let a = \<lparr>tv_sec = wrap time_t_bits (tv_sec s - tv_sec t),
               tv_nsec = wrap long_bits (tv_nsec s - tv_nsec t)\<rparr>
      in if tv_nsec a < 0
         then a\<lparr>tv_sec := wrap time_t_bits (tv_sec a - 1),
                tv_nsec := to_double (to_double (tv_nsec a) + 1000000000)\<rparr>
         else a)"

text \<open>
  Modelled from the spec: \<^verbatim>\<open>TimerUtility_TimerAdd\<close> is declared in timer_utility.h, which
  is not part of the sources. Section 4.1: \<open>add(a, b)\<close> returns the interval whose
  sub-second component is re-normalized into [0, 1e9) by carrying a whole second.
\<close>

definition TimerUtility_TimerAdd :: "timespec \<Rightarrow> timespec \<Rightarrow> timespec" where
  "TimerUtility_TimerAdd s t =
     (let a = \<lparr>tv_sec = tv_sec s + tv_sec t, tv_nsec = tv_nsec s + tv_nsec t\<rparr>
      in if tv_nsec a \<ge> 1000000000
         then a\<lparr>tv_sec := tv_sec a + 1, tv_nsec := tv_nsec a - 1000000000\<rparr>
         else a)"

text \<open>
  Modelled from the spec: \<^verbatim>\<open>TimerUtility_TimerCompareGreater\<close> is declared in
  timer_utility.h, which is not part of the sources. Section 4.1:
  \<open>compareGreater(a, b)\<close> on (seconds, sub-second) pairs, seconds first.
\<close>

definition TimerUtility_TimerCompareGreater :: "timespec \<Rightarrow> timespec \<Rightarrow> bool" where
  "TimerUtility_TimerCompareGreater s t =
     (if tv_sec s = tv_sec t then tv_nsec s > tv_nsec t else tv_sec s > tv_sec t)"

text \<open>A normalized interval has its nanoseconds in [0, 1e9).\<close>

definition normalized :: "timespec \<Rightarrow> bool" where
  "normalized t = (0 \<le> tv_nsec t \<and> tv_nsec t < 1000000000)"

text \<open>The length of an interval in nanoseconds.\<close>

definition nanos :: "timespec \<Rightarrow> int" where
  "nanos t = tv_sec t * 1000000000 + tv_nsec t"

text \<open>
  What \<^verbatim>\<open>clock_gettime(CLOCK_MONOTONIC, _)\<close> stores when the monotonic clock stands at
  \<open>n\<close> nanoseconds: a reading is never negative and always normalized.
\<close>

definition clock_reading :: "nat \<Rightarrow> timespec" where
  "clock_reading n = \<lparr>tv_sec = int (n div 1000000000), tv_nsec = int (n mod 1000000000)\<rparr>"

text \<open>The fields hold values of their types: an interval as the program can have it.\<close>

definition representable :: "timespec \<Rightarrow> bool" where
  "representable t =
     (- (2 ^ (time_t_bits - 1)) \<le> tv_sec t \<and> tv_sec t < 2 ^ (time_t_bits - 1) \<and>
      - (2 ^ (long_bits - 1)) \<le> tv_nsec t \<and> tv_nsec t < 2 ^ (long_bits - 1))"

text \<open>An interval as it is held once its fields are stored in a \<^verbatim>\<open>struct timespec\<close>.\<close>

definition stored :: "timespec \<Rightarrow> timespec" where
  "stored t = \<lparr>tv_sec = wrap time_t_bits (tv_sec t), tv_nsec = wrap long_bits (tv_nsec t)\<rparr>"

section \<open>External calls\<close>

text \<open>
  The colours of led_blink_utility.h that main.c uses, and the three RGB LEDs of
  main.c (lines 42-44).
\<close>

datatype LedBlinkUtility_Colors =
    LedBlinkUtility_Colors_Off
  | LedBlinkUtility_Colors_Red
  | LedBlinkUtility_Colors_Green
  | LedBlinkUtility_Colors_Yellow

datatype RgbLed = ledTraffic | ledMessageEventSentReceived | ledNetworkStatus

text \<open>
  Every call that leaves main.c (GPIO driver, clock, logging, telemetry client, LED
  driver, epoll and timer utilities) is recorded, in order, in the list \<open>calls\<close> of
  the program state. \<open>Log_Debug\<close> carries the format string of the call.
  What such a call returns is an input of the model.
\<close>

datatype call =
    Log_Debug string
  | GPIO_OpenAsOutput
  | GPIO_SetValue_Low
  | GPIO_OpenAsInput
  | GPIO_GetValue
  | close_fd
  | nanosleep
  | clock_gettime timespec
  | AzureIoT_TwinReportState string int
  | LedBlinkUtility_SetLed RgbLed LedBlinkUtility_Colors
  | ConsumeTimerFdEvent
  | LedBlinkUtility_OpenLeds
  | sigaction_SIGTERM
  | CreateEpollFd
  | AzureIoT_Initialize
  | AzureIoT_SetConnectionStatusCallback
  | CreateTimerFdAndAddToEpoll
  | WaitForEventAndCallHandler
  | AzureIoT_SetupClient
  | AzureIoT_DoPeriodicTasks
  | LedBlinkUtility_CloseLeds
  | CloseFdAndPrintError string

section \<open>Distance measurement\<close>

text \<open>
  What the GPIO driver and the clock answer during one measurement:
  the descriptors returned by \<^verbatim>\<open>GPIO_OpenAsOutput\<close> and \<^verbatim>\<open>GPIO_OpenAsInput\<close> (negative
  on failure), the value of \<^verbatim>\<open>outVal\<close> after the \<open>i\<close>-th \<^verbatim>\<open>GPIO_GetValue\<close>
  (\<open>True\<close> is \<^verbatim>\<open>GPIO_Value_High\<close>), and the monotonic clock, in nanoseconds, as it
  would be read in iteration \<open>i\<close>.
\<close>

record gpio_env =
  open_output_fd :: int
  open_input_fd :: int
  level :: "nat \<Rightarrow> bool"
  clock_ns :: "nat \<Rightarrow> nat"

text \<open>
  The polling loop of \<^verbatim>\<open>GetUltrasonicReading\<close> (lines 98-118), from iteration \<open>i\<close>
  with the current \<^verbatim>\<open>triggered\<close>, \<^verbatim>\<open>tsStart\<close> and \<^verbatim>\<open>tsEnd\<close>. It returns the two
  timestamps and the calls made.
\<close>

function poll_loop ::
  "gpio_env \<Rightarrow> nat \<Rightarrow> bool \<Rightarrow> timespec \<Rightarrow> timespec \<Rightarrow> call list
     \<Rightarrow> timespec \<times> timespec \<times> call list" where
  "poll_loop env i triggered tsStart tsEnd cs =
     (if i < 10000 then
        (if level env i then
           (if \<not> triggered then
              poll_loop env (i + 1) True (clock_reading (clock_ns env i)) tsEnd
                (cs @ [GPIO_GetValue, clock_gettime (clock_reading (clock_ns env i))])
            else poll_loop env (i + 1) triggered tsStart tsEnd (cs @ [GPIO_GetValue]))
         else
           (if triggered then
              (tsStart, clock_reading (clock_ns env i),
               cs @ [GPIO_GetValue, clock_gettime (clock_reading (clock_ns env i)),
                     Log_Debug ''looped %d times''])
            else poll_loop env (i + 1) triggered tsStart tsEnd (cs @ [GPIO_GetValue])))
      else (tsStart, tsEnd, cs))"
  by pat_completeness auto
termination
  by (relation "measure (\<lambda>(env, i, triggered, tsStart, tsEnd, cs). 10000 - i)") auto

declare poll_loop.simps [simp del]

text \<open>
  \<^verbatim>\<open>GetUltrasonicReading\<close> (lines 72-132). The result is the returned distance and
  the calls made. The C returns a \<^verbatim>\<open>float\<close>; the model returns the real number
  that the C expression denotes before rounding. The sentinels \<open>-1\<close> and \<open>400\<close>, and
  the thresholds they are compared with, are floats themselves.
\<close>

definition GetUltrasonicReading :: "gpio_env \<Rightarrow> real \<times> call list" where
  "GetUltrasonicReading env =
     (if open_output_fd env < 0 then
        (- 1, [GPIO_OpenAsOutput,
               Log_Debug ''ERROR: Could not open Ultrasonic Output GPIO: %s (%d).''])
      else if open_input_fd env < 0 then
        (- 1, [GPIO_OpenAsOutput, nanosleep, GPIO_SetValue_Low, close_fd, GPIO_OpenAsInput,
               Log_Debug ''ERROR: Could not open Ultrasonic Input GPIO: %s (%d).''])
      else
        (case poll_loop env 0 False \<lparr>tv_sec = 0, tv_nsec = 0\<rparr> \<lparr>tv_sec = 0, tv_nsec = 0\<rparr>
                [GPIO_OpenAsOutput, nanosleep, GPIO_SetValue_Low, close_fd, GPIO_OpenAsInput] of
           (tsStart, tsEnd, cs) \<Rightarrow>
             if tv_sec tsEnd = 0 \<and> tv_nsec tsEnd = 0 then (400, cs @ [close_fd])
             else (real_of_int (tv_nsec (TimerUtility_TimerSubtract tsEnd tsStart)) / 58000,
                   cs @ [close_fd])))"

text \<open>
  A falling edge is observed within the ceiling: one of the 10000 polls reads low
  after an earlier poll has read high.
\<close>

definition falling_edge_observed :: "gpio_env \<Rightarrow> bool" where
  "falling_edge_observed env =
     (\<exists>j \<in> {..<10000}. \<not> level env j \<and> (\<exists>i \<in> {..<j}. level env i))"

text \<open>The same from iteration \<open>i\<close> on, when \<^verbatim>\<open>triggered\<close> has the value \<open>tr\<close>.\<close>

definition falling_edge_from :: "gpio_env \<Rightarrow> nat \<Rightarrow> bool \<Rightarrow> bool" where
  "falling_edge_from env i tr =
     (\<exists>j \<in> {i..<10000}. \<not> level env j \<and> (tr \<or> (\<exists>k \<in> {i..<j}. level env k)))"

text \<open>
  The echo pulse as the loop sees it: poll \<open>r\<close> is the first that reads high, and
  poll \<open>f\<close> is the first after it that reads low, within the 10000 polls.
\<close>

definition echo_edges :: "gpio_env \<Rightarrow> nat \<Rightarrow> nat \<Rightarrow> bool" where
  "echo_edges env r f =
     (r < f \<and> f < 10000 \<and> level env r \<and> (\<forall>i \<in> {..<r}. \<not> level env i)
      \<and> \<not> level env f \<and> (\<forall>j \<in> {r<..<f}. level env j))"

section \<open>Program state\<close>

text \<open>
  The globals of main.c (lines 31-36, 49, 134), the two locals of \<^verbatim>\<open>main\<close> that live
  across loop iterations (lines 243, 252), and the calls made so far.
\<close>

record state =
  epollFd :: int
  usTimerFd :: int
  connectedToIoTHub :: bool
  terminationRequired :: bool
  occupiedState :: bool
  next_iothub_connect :: timespec
  iothub_connected :: bool
  calls :: "call list"

definition initial_state :: state where
  "initial_state =
     \<lparr>epollFd = - 1, usTimerFd = - 1, connectedToIoTHub = False, terminationRequired = False,
      occupiedState = False, next_iothub_connect = \<lparr>tv_sec = 0, tv_nsec = 0\<rparr>,
      iothub_connected = False, calls = []\<rparr>"

definition emit :: "call \<Rightarrow> state \<Rightarrow> state" where
  "emit c s = s\<lparr>calls := calls s @ [c]\<rparr>"

section \<open>Reporting and the timer handler\<close>

text \<open>\<^verbatim>\<open>ReportStatusToIotHub\<close> (lines 136-150).\<close>

definition ReportStatusToIotHub :: "bool \<Rightarrow> state \<Rightarrow> state" where
  "ReportStatusToIotHub occupied s =
     (if occupiedState s \<noteq> occupied then
        (let s1 = s\<lparr>occupiedState := occupied\<rparr>
         in if connectedToIoTHub s1
            then emit (AzureIoT_TwinReportState ''ParkingBayOccupied'' (if occupied then 1 else 0)) s1
            else emit (Log_Debug ''WARNING: Cannot send message: not connected to the IoT Hub'') s1)
      else s)"

text \<open>
  The part of \<^verbatim>\<open>UltrasonicTimerEventHandler\<close> after the measurement (lines 161-177):
  classify the distance, report, set the traffic LED. The value
  \<^verbatim>\<open>LedBlinkUtility_SetLed\<close> returns is not read there.
\<close>

definition classify_and_report :: "real \<Rightarrow> state \<Rightarrow> state" where
  "classify_and_report cms s =
     emit (Log_Debug ''Appox %.1f cm'')
       (if cms > 8 then
          emit (LedBlinkUtility_SetLed ledTraffic LedBlinkUtility_Colors_Green)
            (ReportStatusToIotHub False s)
        else if cms > 2 then
          emit (LedBlinkUtility_SetLed ledTraffic LedBlinkUtility_Colors_Yellow)
            (ReportStatusToIotHub True s)
        else
          emit (LedBlinkUtility_SetLed ledTraffic LedBlinkUtility_Colors_Red)
            (ReportStatusToIotHub True s))"

text \<open>
  What the environment answers during one run of the timer handler: the result of
  \<^verbatim>\<open>ConsumeTimerFdEvent\<close>, the measurement's environment, and the result of the
  \<^verbatim>\<open>LedBlinkUtility_SetLed\<close> call on the traffic LED.
\<close>

record tick_env =
  consume_rc :: int
  gpio :: gpio_env
  traffic_led_rc :: int

text \<open>\<^verbatim>\<open>UltrasonicTimerEventHandler\<close> (lines 152-178).\<close>

definition UltrasonicTimerEventHandler :: "tick_env \<Rightarrow> state \<Rightarrow> state" where
  "UltrasonicTimerEventHandler t s =
     (let s0 = emit ConsumeTimerFdEvent s
      in if consume_rc t \<noteq> 0 then s0\<lparr>terminationRequired := True\<rparr>
         else (case GetUltrasonicReading (gpio t) of
                 (cms, cs) \<Rightarrow> classify_and_report cms (s0\<lparr>calls := calls s0 @ cs\<rparr>)))"

text \<open>Feeding a list of distances, one per tick, into the classify-and-report path.\<close>

fun feed_samples :: "real list \<Rightarrow> state \<Rightarrow> state" where
  "feed_samples [] s = s"
| "feed_samples (cms # rest) s = feed_samples rest (classify_and_report cms s)"

text \<open>Feeding a list of occupancy values into \<^verbatim>\<open>ReportStatusToIotHub\<close>.\<close>

fun feed_reports :: "bool list \<Rightarrow> state \<Rightarrow> state" where
  "feed_reports [] s = s"
| "feed_reports (b # bs) s = feed_reports bs (ReportStatusToIotHub b s)"

subsection \<open>Observations on the calls\<close>

text \<open>The values reported to the telemetry client, in order.\<close>

fun reports :: "call list \<Rightarrow> int list" where
  "reports [] = []"
| "reports (AzureIoT_TwinReportState name v # cs) = v # reports cs"
| "reports (c # cs) = reports cs"

text \<open>The colours the traffic LED was set to, in order.\<close>

fun traffic_colors :: "call list \<Rightarrow> LedBlinkUtility_Colors list" where
  "traffic_colors [] = []"
| "traffic_colors (LedBlinkUtility_SetLed led c # cs) =
     (if led = ledTraffic then c # traffic_colors cs else traffic_colors cs)"
| "traffic_colors (c # cs) = traffic_colors cs"

text \<open>
  The number of transitions in a sequence of occupancy values that follows the
  stored value \<open>prev\<close>: the positions whose value differs from the one before.
\<close>

fun transitions :: "bool \<Rightarrow> bool list \<Rightarrow> nat" where
  "transitions prev [] = 0"
| "transitions prev (b # bs) = (if b \<noteq> prev then 1 else 0) + transitions b bs"

subsection \<open>Measurement environments\<close>

text \<open>
  Both acquisitions succeed, the first poll reads high and the second reads low,
  \<open>w\<close> nanoseconds later: an echo pulse of width \<open>w\<close>.
\<close>

definition echo_env :: "nat \<Rightarrow> gpio_env" where
  "echo_env w =
     \<lparr>open_output_fd = 3, open_input_fd = 3, level = (\<lambda>i. i = 0),
      clock_ns = (\<lambda>i. if i = 0 then 5000000000 else 5000000000 + w)\<rparr>"

text \<open>Both acquisitions succeed and the pin never reads high: no echo.\<close>

definition silent_env :: gpio_env where
  "silent_env =
     \<lparr>open_output_fd = 3, open_input_fd = 3, level = (\<lambda>i. False),
      clock_ns = (\<lambda>i. 5000000000 + i)\<rparr>"

text \<open>\<^verbatim>\<open>GPIO_OpenAsInput\<close> fails.\<close>

definition failing_env :: gpio_env where
  "failing_env =
     \<lparr>open_output_fd = 3, open_input_fd = - 1, level = (\<lambda>i. i = 0),
      clock_ns = (\<lambda>i. 5000000000 + i)\<rparr>"

section \<open>Startup, the main loop and shutdown\<close>

text \<open>\<^verbatim>\<open>TerminationHandler\<close> (lines 54-58) and \<^verbatim>\<open>IoTHubConnectionStatusChanged\<close> (lines 184-187).\<close>

definition TerminationHandler :: "state \<Rightarrow> state" where
  "TerminationHandler s = s\<lparr>terminationRequired := True\<rparr>"

definition IoTHubConnectionStatusChanged :: "bool \<Rightarrow> state \<Rightarrow> state" where
  "IoTHubConnectionStatusChanged is_connected s = s\<lparr>connectedToIoTHub := is_connected\<rparr>"

text \<open>
  What the environment answers during startup: the results of \<^verbatim>\<open>CreateEpollFd\<close>,
  \<^verbatim>\<open>AzureIoT_Initialize\<close> and \<^verbatim>\<open>CreateTimerFdAndAddToEpoll\<close>, and the monotonic clock
  (in nanoseconds) read at line 251.
\<close>

record init_env =
  epoll_fd :: int
  iot_initialized :: bool
  timer_fd :: int
  start_ns :: nat

text \<open>\<^verbatim>\<open>InitPeripheralsAndHandlers\<close> (lines 193-220): the returned value and the new state.\<close>

definition InitPeripheralsAndHandlers :: "init_env \<Rightarrow> state \<Rightarrow> int \<times> state" where
  "InitPeripheralsAndHandlers ie s =
     (let s1 = emit sigaction_SIGTERM (emit LedBlinkUtility_OpenLeds s);
          s2 = (emit CreateEpollFd s1)\<lparr>epollFd := epoll_fd ie\<rparr>
      in if epollFd s2 < 0 then (- 1, s2)
         else
           (let s3 = emit AzureIoT_Initialize s2
            in if \<not> iot_initialized ie
               then (- 1, emit (Log_Debug ''ERROR: Cannot initialize Azure IoT Hub SDK.'') s3)
               else
                 (let s4 = emit AzureIoT_SetConnectionStatusCallback s3;
                      s5 = emit (Log_Debug ''Opening Ultrasonic'') s4;
                      s6 = (emit CreateTimerFdAndAddToEpoll s5)\<lparr>usTimerFd := timer_fd ie\<rparr>
                  in (0, s6))))"

text \<open>\<^verbatim>\<open>ClosePeripheralsAndHandlers\<close> (lines 225-233).\<close>

definition ClosePeripheralsAndHandlers :: "state \<Rightarrow> state" where
  "ClosePeripheralsAndHandlers s =
     (let s1 = emit (LedBlinkUtility_SetLed ledTraffic LedBlinkUtility_Colors_Off) s;
          s2 = emit LedBlinkUtility_CloseLeds s1;
          s3 = emit (Log_Debug ''Closing file descriptors'') s2;
          s4 = emit (CloseFdAndPrintError ''USTimer'') s3
      in emit (CloseFdAndPrintError ''Epoll'') s4)"

text \<open>
  What the environment answers during one iteration of the loop of \<^verbatim>\<open>main\<close>:
  the result of \<^verbatim>\<open>WaitForEventAndCallHandler\<close> and, when the timer was ready, the
  environment of the handler it dispatched; the result of \<^verbatim>\<open>LedBlinkUtility_SetLed\<close>
  on the network LED; the clock at line 273; the result of \<^verbatim>\<open>AzureIoT_SetupClient\<close>
  and the status notification it delivered, if any; the clock at line 276; the
  status notification delivered by \<^verbatim>\<open>AzureIoT_DoPeriodicTasks\<close>, if any; whether
  SIGTERM arrived during the iteration (it is handled during the final sleep).
\<close>

record iter_env =
  wait_rc :: int
  timer_tick :: "tick_env option"
  network_led_rc :: int
  now_ns :: nat
  setup_result :: bool
  setup_status :: "bool option"
  after_ns :: nat
  periodic_status :: "bool option"
  sigterm :: bool

definition deliver :: "bool option \<Rightarrow> state \<Rightarrow> state" where
  "deliver notification s =
     (case notification of None \<Rightarrow> s | Some c \<Rightarrow> IoTHubConnectionStatusChanged c s)"

text \<open>\<^verbatim>\<open>iothub_retry_period\<close> (line 240).\<close>

definition iothub_retry_period :: timespec where
  "iothub_retry_period = \<lparr>tv_sec = 1, tv_nsec = 0\<rparr>"

text \<open>Lines 273-278 of the loop body: set up the client when the deadline has passed.\<close>

definition retry_step :: "iter_env \<Rightarrow> state \<Rightarrow> state" where
  "retry_step e s =
     (let now = clock_reading (now_ns e);
          s1 = emit (clock_gettime now) s
      in if TimerUtility_TimerCompareGreater now (next_iothub_connect s1) then
           (let s2 = (deliver (setup_status e) (emit AzureIoT_SetupClient s1))
                       \<lparr>iothub_connected := setup_result e\<rparr>;
                now2 = clock_reading (after_ns e);
                s3 = emit (clock_gettime now2) s2
            in s3\<lparr>next_iothub_connect := TimerUtility_TimerAdd now2 iothub_retry_period\<rparr>)
         else s1)"

text \<open>Lines 282-284 of the loop body.\<close>

definition maintenance_step :: "iter_env \<Rightarrow> state \<Rightarrow> state" where
  "maintenance_step e s =
     (if iothub_connected s
      then deliver (periodic_status e) (emit AzureIoT_DoPeriodicTasks s)
      else s)"

text \<open>How one iteration leaves the loop body: at its end, or through \<^verbatim>\<open>break\<close>.\<close>

datatype loop_exit = Continue | Break

text \<open>
  Lines 256-263 of the loop body: wait for an event and dispatch the timer handler
  when the timer is ready, then set the network LED.
\<close>

definition loop_head :: "iter_env \<Rightarrow> state \<Rightarrow> state" where
  "loop_head e s =
     (let s1 = emit WaitForEventAndCallHandler s;
          s2 = (case timer_tick e of None \<Rightarrow> s1 | Some t \<Rightarrow> UltrasonicTimerEventHandler t s1);
          s3 = (if wait_rc e \<noteq> 0 then s2\<lparr>terminationRequired := True\<rparr> else s2);
          color = (if connectedToIoTHub s3 then LedBlinkUtility_Colors_Green
                   else LedBlinkUtility_Colors_Off)
      in emit (LedBlinkUtility_SetLed ledNetworkStatus color) s3)"

text \<open>Line 286 of the loop body: the sleep, during which a pending SIGTERM is handled.\<close>

definition sleep_step :: "iter_env \<Rightarrow> state \<Rightarrow> state" where
  "sleep_step e s =
     (let s1 = emit nanosleep s in if sigterm e then TerminationHandler s1 else s1)"

text \<open>The loop body of \<^verbatim>\<open>main\<close> (lines 256-286).\<close>

definition loop_body :: "iter_env \<Rightarrow> state \<Rightarrow> loop_exit \<times> state" where
  "loop_body e s =
     (let s4 = loop_head e s
      in if network_led_rc e \<noteq> 0 then
           (Break, emit (Log_Debug ''ERROR: Set color for network status LED failed'') s4)
         else (Continue, sleep_step e (maintenance_step e (retry_step e s4))))"

text \<open>
  The loop of \<^verbatim>\<open>main\<close> (line 255) on a script of iteration environments. The loop can
  run forever; \<open>Pending\<close> is the state reached when the script is used up and the
  loop has not been left, \<open>Exited\<close> the state in which the loop was left.
\<close>

datatype run = Exited (run_state: state) | Pending (run_state: state)

fun main_loop :: "iter_env list \<Rightarrow> state \<Rightarrow> run" where
  "main_loop [] s = (if terminationRequired s then Exited s else Pending s)"
| "main_loop (e # es) s =
     (if terminationRequired s then Exited s
      else (case loop_body e s of
              (Break, s') \<Rightarrow> Exited s'
            | (Continue, s') \<Rightarrow> main_loop es s'))"

text \<open>\<^verbatim>\<open>main\<close> up to the loop (lines 240-252), and after it (lines 289-291).\<close>

definition main_startup :: "init_env \<Rightarrow> state" where
  "main_startup ie =
     (let s0 = emit (Log_Debug ''Parking application starting'') initial_state;
          r = InitPeripheralsAndHandlers ie s0;
          s1 = (if fst r \<noteq> 0 then (snd r)\<lparr>terminationRequired := True\<rparr> else snd r);
          t0 = clock_reading (start_ns ie)
      in (emit (clock_gettime t0) s1)\<lparr>next_iothub_connect := t0, iothub_connected := False\<rparr>)"

definition main_shutdown :: "state \<Rightarrow> state" where
  "main_shutdown s = emit (Log_Debug ''Application exiting'') (ClosePeripheralsAndHandlers s)"

text \<open>\<^verbatim>\<open>main\<close> (lines 238-292).\<close>

definition main :: "init_env \<Rightarrow> iter_env list \<Rightarrow> run" where
  "main ie es =
     (case main_loop es (main_startup ie) of
        Exited s \<Rightarrow> Exited (main_shutdown s)
      | Pending s \<Rightarrow> Pending s)"

subsection \<open>Observations on a run\<close>

text \<open>How often the client setup and the periodic maintenance were called.\<close>

definition setup_calls :: "state \<Rightarrow> nat" where
  "setup_calls s = count_list (calls s) AzureIoT_SetupClient"

definition maintenance_calls :: "state \<Rightarrow> nat" where
  "maintenance_calls s = count_list (calls s) AzureIoT_DoPeriodicTasks"

text \<open>The iteration with environment \<open>e\<close>, started in \<open>s\<close>, makes a connection attempt.\<close>

definition attempted :: "iter_env \<Rightarrow> state \<Rightarrow> bool" where
  "attempted e s = (setup_calls (snd (loop_body e s)) > setup_calls s)"

text \<open>
  The connection attempts of a run of the loop, in order: for each, the clock read
  before it (line 273) and the clock read after it (line 276), in nanoseconds.
\<close>

fun attempt_log :: "iter_env list \<Rightarrow> state \<Rightarrow> (nat \<times> nat) list" where
  "attempt_log [] s = []"
| "attempt_log (e # es) s =
     (if terminationRequired s then []
      else (if attempted e s then [(now_ns e, after_ns e)] else []) @
           (case loop_body e s of
              (Break, s') \<Rightarrow> []
            | (Continue, s') \<Rightarrow> attempt_log es s'))"

text \<open>
  Every attempt of the log starts more than one retry period (1e9 nanoseconds)
  after the attempt before it has ended.
\<close>

fun spaced :: "(nat \<times> nat) list \<Rightarrow> bool" where
  "spaced (a # b # r) = (snd a + 1000000000 < fst b \<and> spaced (b # r))"
| "spaced r = True"

subsection \<open>Scenarios\<close>

text \<open>A startup in which everything succeeds, at clock 1 s.\<close>

definition good_init :: init_env where
  "good_init = \<lparr>epoll_fd = 3, iot_initialized = True, timer_fd = 4, start_ns = 1000000000\<rparr>"

text \<open>A startup in which only the creation of the timer fails.\<close>

definition timer_fail_init :: init_env where
  "timer_fail_init =
     \<lparr>epoll_fd = 3, iot_initialized = True, timer_fd = - 1, start_ns = 1000000000\<rparr>"

text \<open>
  An iteration without a timer event in which everything succeeds: the clock stands
  at \<open>n\<close>, a client setup (if made) returns \<open>ok\<close> and ends at \<open>n + 1000\<close>, and the
  maintenance (if made) delivers the notification \<open>st\<close>.
\<close>

definition quiet_iter :: "nat \<Rightarrow> bool \<Rightarrow> bool option \<Rightarrow> iter_env" where
  "quiet_iter n ok st =
     \<lparr>wait_rc = 0, timer_tick = None, network_led_rc = 0, now_ns = n, setup_result = ok,
      setup_status = None, after_ns = n + 1000, periodic_status = st, sigterm = False\<rparr>"

text \<open>
  An iteration in which the timer fires, the sensor sees an echo of 580000 ns
  (10 cm) and setting the traffic LED fails; everything else succeeds.
\<close>

definition traffic_fail_iter :: iter_env where
  "traffic_fail_iter =
     (quiet_iter 1500000000 True None)
       \<lparr>timer_tick := Some \<lparr>consume_rc = 0, gpio = echo_env 580000, traffic_led_rc = - 1\<rparr>\<rparr>"

text \<open>The state after one iteration that connects: setup succeeds, notification \<open>connected\<close>.\<close>

definition connected_state :: state where
  "connected_state =
     snd (loop_body (quiet_iter 1500000000 True (Some True)) (main_startup good_init))"

section \<open>Properties of the time arithmetic\<close>

lemma normalized_clock_reading: "normalized (clock_reading n)"
  by (simp add: normalized_def clock_reading_def)

lemma nanos_clock_reading: "nanos (clock_reading n) = int n"
  by (simp add: nanos_def clock_reading_def zdiv_int zmod_int)

lemma wrap_id: "- (2 ^ (w - 1)) \<le> x \<Longrightarrow> x < 2 ^ (w - 1) \<Longrightarrow> 0 < w \<Longrightarrow> wrap w x = x"
proof -
  assume a: "- (2 ^ (w - 1)) \<le> x" "x < 2 ^ (w - 1)" "0 < w"
  have p: "(2::int) ^ w = 2 * 2 ^ (w - 1)"
    using a(3) by (cases w) simp_all
  have "0 \<le> x + 2 ^ (w - 1)" "x + 2 ^ (w - 1) < 2 ^ w"
    using a p by simp_all
  then show ?thesis
    by (simp add: wrap_def)
qed

lemma wrap_range: "0 < w \<Longrightarrow> - (2 ^ (w - 1)) \<le> wrap w x \<and> wrap w x < 2 ^ (w - 1)"
proof -
  assume "0 < w"
  then have p: "(2::int) ^ w = 2 * 2 ^ (w - 1)" by (cases w) simp_all
  have "0 \<le> (x + 2 ^ (w - 1)) mod 2 ^ w" "(x + 2 ^ (w - 1)) mod 2 ^ w < 2 ^ w"
    by simp_all
  with p show ?thesis by (simp add: wrap_def)
qed

lemma wrap_wrap_add: "wrap w (wrap w x + y) = wrap w (x + y)"
proof -
  have "wrap w x + y + 2 ^ (w - 1) = (x + 2 ^ (w - 1)) mod 2 ^ w + y"
    by (simp add: wrap_def)
  then have "(wrap w x + y + 2 ^ (w - 1)) mod 2 ^ w = ((x + 2 ^ (w - 1)) mod 2 ^ w + y) mod 2 ^ w"
    by (simp only:)
  also have "\<dots> = (x + 2 ^ (w - 1) + y) mod 2 ^ w"
    by (rule mod_add_left_eq)
  also have "x + 2 ^ (w - 1) + y = x + y + 2 ^ (w - 1)"
    by simp
  finally show ?thesis
    unfolding wrap_def by (simp only:)
qed

lemma bit_length_le: "n < 2 ^ k \<Longrightarrow> bit_length n \<le> k"
proof (induction k arbitrary: n)
  case 0
  then show ?case by (subst bit_length.simps) simp
next
  case (Suc k)
  then have "n div 2 < 2 ^ k" by simp
  from Suc.IH [OF this] show ?case by (subst bit_length.simps) simp
qed

lemma to_double_id: "\<bar>x\<bar> < 2 ^ 53 \<Longrightarrow> to_double x = x"
proof -
  assume "\<bar>x\<bar> < 2 ^ 53"
  then have "nat \<bar>x\<bar> < 2 ^ 53" by simp
  then have "bit_length (nat \<bar>x\<bar>) \<le> 53" by (rule bit_length_le)
  then show ?thesis by (simp add: to_double_def round_even_def)
qed

lemma TimerSubtract_nsec:
  assumes "normalized s" and "normalized t"
  shows "tv_nsec (TimerUtility_TimerSubtract s t) =
     (if tv_nsec s < tv_nsec t then tv_nsec s - tv_nsec t + 1000000000
      else tv_nsec s - tv_nsec t)"
proof -
  let ?d = "tv_nsec s - tv_nsec t"
  from assms have d: "- 1000000000 < ?d" "?d < 1000000000"
    by (simp_all add: normalized_def)
  then have w: "wrap long_bits ?d = ?d"
    by (intro wrap_id) (simp_all add: long_bits_def)
  have "\<bar>?d\<bar> < 2 ^ 53" "\<bar>?d + 1000000000\<bar> < 2 ^ 53"
    using d by simp_all
  then have "to_double ?d = ?d" "to_double (?d + 1000000000) = ?d + 1000000000"
    by (simp_all only: to_double_id)
  with w show ?thesis
    by (simp add: TimerUtility_TimerSubtract_def Let_def)
qed

lemma TimerSubtract_sec:
  assumes "normalized s" and "normalized t"
  shows "tv_sec (TimerUtility_TimerSubtract s t) =
     wrap time_t_bits (tv_sec s - tv_sec t - (if tv_nsec s < tv_nsec t then 1 else 0))"
proof -
  let ?d = "tv_nsec s - tv_nsec t"
  from assms have d: "- 1000000000 < ?d" "?d < 1000000000"
    by (simp_all add: normalized_def)
  then have w: "wrap long_bits ?d = ?d"
    by (intro wrap_id) (simp_all add: long_bits_def)
  have "wrap time_t_bits (wrap time_t_bits (tv_sec s - tv_sec t) - 1) =
      wrap time_t_bits (tv_sec s - tv_sec t - 1)"
    using wrap_wrap_add [of time_t_bits "tv_sec s - tv_sec t" "- 1"] by simp
  with w show ?thesis
    by (simp add: TimerUtility_TimerSubtract_def Let_def)
qed

lemma TimerSubtract_normalized:
  "normalized s \<Longrightarrow> normalized t \<Longrightarrow> normalized (TimerUtility_TimerSubtract s t)"
proof -
  assume a: "normalized s" "normalized t"
  then have "0 \<le> tv_nsec s" "tv_nsec s < 1000000000" "0 \<le> tv_nsec t" "tv_nsec t < 1000000000"
    by (simp_all add: normalized_def)
  then show ?thesis
    unfolding normalized_def TimerSubtract_nsec [OF a] by simp
qed

lemma TimerSubtract_representable:
  assumes "normalized s" and "normalized t"
  shows "representable (TimerUtility_TimerSubtract s t)"
proof -
  have "normalized (TimerUtility_TimerSubtract s t)"
    using assms by (rule TimerSubtract_normalized)
  then have "- (2 ^ 63) \<le> tv_nsec (TimerUtility_TimerSubtract s t)"
    "tv_nsec (TimerUtility_TimerSubtract s t) < 2 ^ 63"
    by (simp_all add: normalized_def)
  moreover have "- (2 ^ 63) \<le> tv_sec (TimerUtility_TimerSubtract s t)
      \<and> tv_sec (TimerUtility_TimerSubtract s t) < 2 ^ 63"
    using wrap_range [of time_t_bits] assms
    by (simp add: TimerSubtract_sec) (simp add: time_t_bits_def)
  ultimately show ?thesis
    by (simp add: representable_def time_t_bits_def long_bits_def)
qed

lemma TimerAdd_nanos:
  "nanos (TimerUtility_TimerAdd s t) = nanos s + nanos t"
  by (simp add: nanos_def TimerUtility_TimerAdd_def Let_def algebra_simps)

lemma TimerAdd_normalized:
  "normalized s \<Longrightarrow> normalized t \<Longrightarrow> normalized (TimerUtility_TimerAdd s t)"
  by (simp add: normalized_def TimerUtility_TimerAdd_def Let_def)

lemma TimerCompareGreater_nanos:
  assumes "normalized s" and "normalized t"
  shows "TimerUtility_TimerCompareGreater s t \<longleftrightarrow> nanos s > nanos t"
proof (cases "tv_sec s = tv_sec t")
  case True
  then show ?thesis
    by (simp add: TimerUtility_TimerCompareGreater_def nanos_def)
next
  case False
  from assms have b: "0 \<le> tv_nsec s" "tv_nsec s < 1000000000"
    "0 \<le> tv_nsec t" "tv_nsec t < 1000000000"
    by (simp_all add: normalized_def)
  show ?thesis
  proof (cases "tv_sec s > tv_sec t")
    case True
    then have "tv_sec t + 1 \<le> tv_sec s" by simp
    then have "(tv_sec t + 1) * 1000000000 \<le> tv_sec s * 1000000000" by simp
    with b True False show ?thesis
      by (simp add: TimerUtility_TimerCompareGreater_def nanos_def algebra_simps)
  next
    case gt: False
    with False have "tv_sec s + 1 \<le> tv_sec t" by simp
    then have "(tv_sec s + 1) * 1000000000 \<le> tv_sec t * 1000000000" by simp
    with b gt False show ?thesis
      by (simp add: TimerUtility_TimerCompareGreater_def nanos_def algebra_simps)
  qed
qed

lemma TimerSubtract_clock:
  assumes "n \<le> m" and "m < 2 ^ 63 * 1000000000"
  shows "nanos (TimerUtility_TimerSubtract (clock_reading m) (clock_reading n)) = int m - int n"
proof -
  let ?s = "clock_reading m" and ?t = "clock_reading n"
  let ?borrow = "if tv_nsec ?s < tv_nsec ?t then 1 else (0::int)"
  have nm: "normalized ?s" "normalized ?t"
    by (rule normalized_clock_reading)+
  then have b: "0 \<le> tv_nsec ?s" "tv_nsec ?s < 1000000000" "0 \<le> tv_nsec ?t"
    "tv_nsec ?t < 1000000000"
    by (simp_all add: normalized_def)
  have ns: "nanos ?s = int m" "nanos ?t = int n"
    by (rule nanos_clock_reading)+
  have "m div 1000000000 < 2 ^ 63"
    using assms(2) by (simp add: div_less_iff_less_mult)
  then have hi: "tv_sec ?s < 2 ^ 63"
    by (simp add: clock_reading_def del: of_nat_div)
  have lo: "0 \<le> tv_sec ?t" "0 \<le> tv_sec ?s"
    by (simp_all add: clock_reading_def)
  have le: "tv_sec ?t \<le> tv_sec ?s"
    using assms(1) by (simp add: clock_reading_def div_le_mono del: of_nat_div)
  have bw: "tv_sec ?t + ?borrow \<le> tv_sec ?s"
  proof (cases "tv_sec ?t = tv_sec ?s")
    case True
    have "nanos ?t \<le> nanos ?s" using assms(1) ns by simp
    with True have "tv_nsec ?t \<le> tv_nsec ?s" by (simp add: nanos_def)
    with True show ?thesis by simp
  next
    case False
    with le show ?thesis by simp
  qed
  have "wrap time_t_bits (tv_sec ?s - tv_sec ?t - ?borrow) = tv_sec ?s - tv_sec ?t - ?borrow"
    using hi lo bw by (intro wrap_id) (simp_all add: time_t_bits_def)
  then have sc: "tv_sec (TimerUtility_TimerSubtract ?s ?t) = tv_sec ?s - tv_sec ?t - ?borrow"
    by (simp only: TimerSubtract_sec [OF nm])
  have nc: "tv_nsec (TimerUtility_TimerSubtract ?s ?t) =
      tv_nsec ?s - tv_nsec ?t + ?borrow * 1000000000"
    by (simp add: TimerSubtract_nsec [OF nm])
  have "nanos (TimerUtility_TimerSubtract ?s ?t) = nanos ?s - nanos ?t"
    unfolding nanos_def sc nc by (simp add: algebra_simps)
  with ns show ?thesis by simp
qed

text \<open>
  C9. For all intervals \<open>a\<close> and \<open>b\<close> that the fields can hold and whose sub-second
  components are normalized into [0, 1e9), the sub-second component of
  \<open>subtract(a, b)\<close> lies in [0, 1e9), and adding \<open>b\<close> back to \<open>subtract(a, b)\<close> gives \<open>a\<close>
  again: exactly when the difference of the seconds stays inside the field, and
  in every case (also where the subtraction wraps around) once the sum is stored
  in the fixed-size fields.
\<close>

theorem TimerSubtract_roundtrip:
  assumes "normalized a" and "normalized b" and "representable a" and "representable b"
  shows "0 \<le> tv_nsec (TimerUtility_TimerSubtract a b)
       \<and> tv_nsec (TimerUtility_TimerSubtract a b) < 1000000000
       \<and> representable (TimerUtility_TimerSubtract a b)
       \<and> stored (TimerUtility_TimerAdd (TimerUtility_TimerSubtract a b) b) = a
       \<and> (representable
            \<lparr>tv_sec = tv_sec a - tv_sec b - (if tv_nsec a < tv_nsec b then 1 else 0),
             tv_nsec = 0\<rparr> \<longrightarrow>
          TimerUtility_TimerAdd (TimerUtility_TimerSubtract a b) b = a)"
proof -
  let ?r = "TimerUtility_TimerSubtract a b"
  let ?borrow = "if tv_nsec a < tv_nsec b then 1 else (0::int)"
  have n: "normalized ?r"
    using assms(1,2) by (rule TimerSubtract_normalized)
  have ns: "tv_nsec ?r = tv_nsec a - tv_nsec b + ?borrow * 1000000000"
    using assms(1,2) by (simp add: TimerSubtract_nsec)
  have sc: "tv_sec ?r = wrap time_t_bits (tv_sec a - tv_sec b - ?borrow)"
    using assms(1,2) by (simp add: TimerSubtract_sec)
  have an: "0 \<le> tv_nsec a" "tv_nsec a < 1000000000"
    using assms(1) by (simp_all add: normalized_def)
  have add_n: "tv_nsec (TimerUtility_TimerAdd ?r b) = tv_nsec a"
    using an by (simp add: TimerUtility_TimerAdd_def Let_def ns)
  have add_s: "tv_sec (TimerUtility_TimerAdd ?r b) = tv_sec ?r + tv_sec b + ?borrow"
    using an by (simp add: TimerUtility_TimerAdd_def Let_def ns)
  have "wrap time_t_bits (tv_sec ?r + (tv_sec b + ?borrow)) =
      wrap time_t_bits (tv_sec a - tv_sec b - ?borrow + (tv_sec b + ?borrow))"
    unfolding sc by (rule wrap_wrap_add)
  also have "\<dots> = wrap time_t_bits (tv_sec a)" by simp
  also have "\<dots> = tv_sec a"
    using assms(3) by (intro wrap_id) (simp_all add: representable_def time_t_bits_def)
  finally have ws: "wrap time_t_bits (tv_sec (TimerUtility_TimerAdd ?r b)) = tv_sec a"
    by (simp add: add_s add.assoc)
  have wn: "wrap long_bits (tv_nsec (TimerUtility_TimerAdd ?r b)) = tv_nsec a"
    unfolding add_n using an by (intro wrap_id) (simp_all add: long_bits_def)
  have st: "stored (TimerUtility_TimerAdd ?r b) = a"
    by (simp add: stored_def ws wn)
  have ex: "TimerUtility_TimerAdd ?r b = a"
    if "representable \<lparr>tv_sec = tv_sec a - tv_sec b - ?borrow, tv_nsec = 0\<rparr>"
  proof -
    from that have "wrap time_t_bits (tv_sec a - tv_sec b - ?borrow) = tv_sec a - tv_sec b - ?borrow"
      by (intro wrap_id) (simp_all add: representable_def time_t_bits_def)
    then have "tv_sec (TimerUtility_TimerAdd ?r b) = tv_sec a"
      by (simp add: add_s sc)
    with add_n show ?thesis by simp
  qed
  from n st ex TimerSubtract_representable [OF assms(1,2)] show ?thesis
    by (simp add: normalized_def)
qed

theorem TimerSubtract_roundtrip_witness:
  "normalized \<lparr>tv_sec = 7, tv_nsec = 100\<rparr> \<and> normalized \<lparr>tv_sec = 5, tv_nsec = 900000000\<rparr>
   \<and> representable \<lparr>tv_sec = 7, tv_nsec = 100\<rparr>
   \<and> representable \<lparr>tv_sec = 5, tv_nsec = 900000000\<rparr>
   \<and> representable \<lparr>tv_sec = 7 - 5 - (if (100::int) < 900000000 then 1 else 0), tv_nsec = 0\<rparr>
   \<and> tv_nsec (TimerUtility_TimerSubtract
        \<lparr>tv_sec = 7, tv_nsec = 100\<rparr> \<lparr>tv_sec = 5, tv_nsec = 900000000\<rparr>) = 100000100
   \<and> TimerUtility_TimerAdd
        (TimerUtility_TimerSubtract \<lparr>tv_sec = 7, tv_nsec = 100\<rparr> \<lparr>tv_sec = 5, tv_nsec = 900000000\<rparr>)
        \<lparr>tv_sec = 5, tv_nsec = 900000000\<rparr> = \<lparr>tv_sec = 7, tv_nsec = 100\<rparr>
   \<and> normalized \<lparr>tv_sec = - (2 ^ 63), tv_nsec = 0\<rparr> \<and> normalized \<lparr>tv_sec = 1, tv_nsec = 0\<rparr>
   \<and> representable \<lparr>tv_sec = - (2 ^ 63), tv_nsec = 0\<rparr>
   \<and> representable \<lparr>tv_sec = 1, tv_nsec = 0\<rparr>
   \<and> TimerUtility_TimerSubtract \<lparr>tv_sec = - (2 ^ 63), tv_nsec = 0\<rparr> \<lparr>tv_sec = 1, tv_nsec = 0\<rparr>
       = \<lparr>tv_sec = 2 ^ 63 - 1, tv_nsec = 0\<rparr>
   \<and> stored (TimerUtility_TimerAdd
        (TimerUtility_TimerSubtract \<lparr>tv_sec = - (2 ^ 63), tv_nsec = 0\<rparr> \<lparr>tv_sec = 1, tv_nsec = 0\<rparr>)
        \<lparr>tv_sec = 1, tv_nsec = 0\<rparr>) = \<lparr>tv_sec = - (2 ^ 63), tv_nsec = 0\<rparr>"
proof -
  let ?a = "\<lparr>tv_sec = 7, tv_nsec = 100\<rparr>" and ?b = "\<lparr>tv_sec = 5, tv_nsec = 900000000\<rparr>"
  let ?c = "\<lparr>tv_sec = - (2 ^ 63), tv_nsec = 0\<rparr>" and ?d = "\<lparr>tv_sec = 1, tv_nsec = 0\<rparr>"
  have n: "normalized ?a" "normalized ?b" "normalized ?c" "normalized ?d"
    by (simp_all add: normalized_def)
  have r: "representable ?a" "representable ?b" "representable ?c" "representable ?d"
    by (simp_all add: representable_def time_t_bits_def long_bits_def)
  have f: "representable \<lparr>tv_sec = 7 - 5 - (if (100::int) < 900000000 then 1 else 0), tv_nsec = 0\<rparr>"
    by (simp add: representable_def time_t_bits_def long_bits_def)
  have s: "tv_nsec (TimerUtility_TimerSubtract ?a ?b) = 100000100"
    by (simp add: TimerSubtract_nsec n)
  have w: "TimerUtility_TimerSubtract ?c ?d = \<lparr>tv_sec = 2 ^ 63 - 1, tv_nsec = 0\<rparr>"
    by (simp add: TimerUtility_TimerSubtract_def Let_def wrap_def time_t_bits_def long_bits_def)
  from TimerSubtract_roundtrip [OF n(1) n(2) r(1) r(2)] f
  have x: "TimerUtility_TimerAdd (TimerUtility_TimerSubtract ?a ?b) ?b = ?a"
    by simp
  from TimerSubtract_roundtrip [OF n(3) n(4) r(3) r(4)]
  have y: "stored (TimerUtility_TimerAdd (TimerUtility_TimerSubtract ?c ?d) ?d) = ?c"
    by blast
  from n r f s x w y show ?thesis
    by (intro conjI)
qed

text \<open>
  Outside the normalized intervals the \<^verbatim>\<open>double\<close> addition of line 68 rounds: a
  nanosecond difference of -(2^62 + 1) becomes -(2^62) before 1e9 is added.
\<close>

lemma TimerSubtract_double_rounding:
  "to_double (- (2 ^ 62) - 1) = - (2 ^ 62)
   \<and> tv_nsec (TimerUtility_TimerSubtract \<lparr>tv_sec = 0, tv_nsec = - (2 ^ 62) - 1\<rparr>
        \<lparr>tv_sec = 0, tv_nsec = 0\<rparr>) = - (2 ^ 62) + 1000000000"
  by (simp add: TimerUtility_TimerSubtract_def Let_def wrap_def long_bits_def time_t_bits_def
      to_double_def round_even_def bit_length.simps)

section \<open>Properties of reporting and classification\<close>

lemma calls_emit: "calls (emit c s) = calls s @ [c]"
  by (simp add: emit_def)

lemma reports_append: "reports (xs @ ys) = reports xs @ reports ys"
  by (induction xs rule: reports.induct) simp_all

lemma traffic_colors_append:
  "traffic_colors (xs @ ys) = traffic_colors xs @ traffic_colors ys"
  by (induction xs rule: traffic_colors.induct) simp_all

lemma ReportStatus_connected:
  "connectedToIoTHub (ReportStatusToIotHub b s) = connectedToIoTHub s"
  by (simp add: ReportStatusToIotHub_def emit_def Let_def)

lemma ReportStatus_occupied: "occupiedState (ReportStatusToIotHub b s) = b"
  by (simp add: ReportStatusToIotHub_def emit_def Let_def)

lemma ReportStatus_calls:
  "calls (ReportStatusToIotHub b s) =
     calls s @
       (if occupiedState s = b then []
        else if connectedToIoTHub s
             then [AzureIoT_TwinReportState ''ParkingBayOccupied'' (if b then 1 else 0)]
             else [Log_Debug ''WARNING: Cannot send message: not connected to the IoT Hub''])"
  by (simp add: ReportStatusToIotHub_def emit_def Let_def)

lemma ReportStatus_traffic:
  "traffic_colors (calls (ReportStatusToIotHub b s)) = traffic_colors (calls s)"
  by (simp add: ReportStatus_calls traffic_colors_append)

lemma feed_reports_count:
  "connectedToIoTHub s \<Longrightarrow>
   length (reports (calls (feed_reports bs s))) =
     length (reports (calls s)) + transitions (occupiedState s) bs"
proof (induction bs arbitrary: s)
  case Nil
  then show ?case by simp
next
  case (Cons b bs)
  have "connectedToIoTHub (ReportStatusToIotHub b s)"
    using Cons.prems by (simp add: ReportStatus_connected)
  from Cons.IH [OF this] Cons.prems show ?case
    by (simp add: ReportStatus_occupied ReportStatus_calls reports_append)
qed

lemma classify_calls:
  "calls (classify_and_report cms s) =
     calls (ReportStatusToIotHub (\<not> cms > 8) s) @
       [LedBlinkUtility_SetLed ledTraffic
          (if cms > 8 then LedBlinkUtility_Colors_Green
           else if cms > 2 then LedBlinkUtility_Colors_Yellow else LedBlinkUtility_Colors_Red),
        Log_Debug ''Appox %.1f cm'']"
  by (simp add: classify_and_report_def emit_def)

lemma classify_occupied: "occupiedState (classify_and_report cms s) = (\<not> cms > 8)"
  by (simp add: classify_and_report_def emit_def ReportStatus_occupied)

lemma classify_traffic:
  "traffic_colors (calls (classify_and_report cms s)) =
     traffic_colors (calls s) @
       [if cms > 8 then LedBlinkUtility_Colors_Green
        else if cms > 2 then LedBlinkUtility_Colors_Yellow else LedBlinkUtility_Colors_Red]"
  by (simp add: classify_calls traffic_colors_append ReportStatus_traffic)

lemma classify_reports:
  "reports (calls (classify_and_report cms s)) =
     reports (calls s) @
       (if occupiedState s = (\<not> cms > 8) \<or> \<not> connectedToIoTHub s then []
        else [if cms > 8 then 0 else 1])"
  by (simp add: classify_calls reports_append ReportStatus_calls)

lemma classify_connected:
  "connectedToIoTHub (classify_and_report cms s) = connectedToIoTHub s"
  by (simp add: classify_and_report_def emit_def ReportStatus_connected)

lemma feed_samples_count:
  "connectedToIoTHub s \<Longrightarrow>
   length (reports (calls (feed_samples ds s))) =
     length (reports (calls s)) + transitions (occupiedState s) (map (\<lambda>d. \<not> d > 8) ds)"
proof (induction ds arbitrary: s)
  case Nil
  then show ?case by simp
next
  case (Cons d ds)
  have "connectedToIoTHub (classify_and_report d s)"
    using Cons.prems by (simp add: classify_connected)
  from Cons.IH [OF this] Cons.prems show ?case
    by (simp add: classify_occupied classify_reports)
qed

text \<open>
  C1, as the code has it. The samples [10, 10, 5, 5, 1, 10] are fed, one per tick, into
  the classify-and-report path, from the state at process start with the telemetry
  client connected. The stored occupancy starts as false, so the first two samples
  report nothing: exactly two reports are emitted, true and then false (the integers
  1 and 0), and the traffic LED is set to Green, Green, Yellow, Yellow, Red, Green.
\<close>

theorem scripted_samples_two_reports:
  "reports (calls (feed_samples [10, 10, 5, 5, 1, 10]
      (initial_state\<lparr>connectedToIoTHub := True\<rparr>))) = [1, 0]
   \<and> traffic_colors (calls (feed_samples [10, 10, 5, 5, 1, 10]
      (initial_state\<lparr>connectedToIoTHub := True\<rparr>))) =
     [LedBlinkUtility_Colors_Green, LedBlinkUtility_Colors_Green,
      LedBlinkUtility_Colors_Yellow, LedBlinkUtility_Colors_Yellow,
      LedBlinkUtility_Colors_Red, LedBlinkUtility_Colors_Green]"
  by (simp add: classify_and_report_def ReportStatusToIotHub_def emit_def Let_def
      initial_state_def)

text \<open>
  C1 as stated fails: on the scripted samples the reports are not
  [false, true, false], and there are two of them, not three.
\<close>

theorem scripted_samples_counterexample:
  "reports (calls (feed_samples [10, 10, 5, 5, 1, 10]
      (initial_state\<lparr>connectedToIoTHub := True\<rparr>))) \<noteq> [0, 1, 0]
   \<and> length (reports (calls (feed_samples [10, 10, 5, 5, 1, 10]
      (initial_state\<lparr>connectedToIoTHub := True\<rparr>)))) \<noteq> 3"
  by (simp add: classify_and_report_def ReportStatusToIotHub_def emit_def Let_def
      initial_state_def)

text \<open>
  C2. \<^verbatim>\<open>ReportStatusToIotHub\<close> makes a call only when the computed occupancy differs
  from the stored one: the report when the client is connected, the warning (and no
  report) when it is not. After the call the stored occupancy is the computed one in
  every case. So over any sequence of occupancy values fed while connected, the
  number of reports grows by the number of transitions of the sequence; and over
  any sequence of distance samples, by the number of transitions of their
  occupancy values.
\<close>

theorem report_on_change_only:
  "calls (ReportStatusToIotHub b s) =
     calls s @
       (if occupiedState s = b then []
        else if connectedToIoTHub s
             then [AzureIoT_TwinReportState ''ParkingBayOccupied'' (if b then 1 else 0)]
             else [Log_Debug ''WARNING: Cannot send message: not connected to the IoT Hub''])
   \<and> occupiedState (ReportStatusToIotHub b s) = b
   \<and> (connectedToIoTHub s \<longrightarrow>
        length (reports (calls (feed_reports bs s))) =
          length (reports (calls s)) + transitions (occupiedState s) bs)
   \<and> (connectedToIoTHub s \<longrightarrow>
        length (reports (calls (feed_samples ds s))) =
          length (reports (calls s)) +
            transitions (occupiedState s) (map (\<lambda>d. \<not> d > 8) ds))"
  using feed_reports_count [of s bs] feed_samples_count [of s ds]
  by (simp add: ReportStatus_calls ReportStatus_occupied)

theorem report_on_change_only_witness:
  "connectedToIoTHub (initial_state\<lparr>connectedToIoTHub := True\<rparr>)
   \<and> length (reports (calls (feed_reports [False, True, True, False]
               (initial_state\<lparr>connectedToIoTHub := True\<rparr>)))) = 2
   \<and> length (reports (calls (feed_samples [10, 5, 1, 10, 10]
               (initial_state\<lparr>connectedToIoTHub := True\<rparr>)))) = 2"
  using report_on_change_only [of True "initial_state\<lparr>connectedToIoTHub := True\<rparr>"
      "[False, True, True, False]" "[10, 5, 1, 10, 10]"]
  by (simp add: initial_state_def)

text \<open>
  C4. The classifier compares with strict greater-than: a distance above 8 gives
  occupancy false and a Green traffic LED (tier clear); a distance above 2 and up to
  8 gives occupancy true and Yellow (tier near); a distance up to 2 gives occupancy
  true and Red (tier occupied). In particular exactly 8 is near and exactly 2 is
  occupied.
\<close>

theorem classify_thresholds:
  "(cms > 8 \<longrightarrow>
      \<not> occupiedState (classify_and_report cms s)
      \<and> traffic_colors (calls (classify_and_report cms s)) =
          traffic_colors (calls s) @ [LedBlinkUtility_Colors_Green])
   \<and> (2 < cms \<and> cms \<le> 8 \<longrightarrow>
      occupiedState (classify_and_report cms s)
      \<and> traffic_colors (calls (classify_and_report cms s)) =
          traffic_colors (calls s) @ [LedBlinkUtility_Colors_Yellow])
   \<and> (cms \<le> 2 \<longrightarrow>
      occupiedState (classify_and_report cms s)
      \<and> traffic_colors (calls (classify_and_report cms s)) =
          traffic_colors (calls s) @ [LedBlinkUtility_Colors_Red])
   \<and> occupiedState (classify_and_report 8 s)
   \<and> traffic_colors (calls (classify_and_report 8 s)) =
        traffic_colors (calls s) @ [LedBlinkUtility_Colors_Yellow]
   \<and> occupiedState (classify_and_report 2 s)
   \<and> traffic_colors (calls (classify_and_report 2 s)) =
        traffic_colors (calls s) @ [LedBlinkUtility_Colors_Red]"
  by (simp add: classify_occupied classify_traffic)

theorem classify_thresholds_witness:
  "(801 / 100 :: real) > 8
   \<and> \<not> occupiedState (classify_and_report (801 / 100) initial_state)
   \<and> traffic_colors (calls (classify_and_report (801 / 100) initial_state)) =
        [LedBlinkUtility_Colors_Green]
   \<and> occupiedState (classify_and_report 8 initial_state)
   \<and> traffic_colors (calls (classify_and_report 8 initial_state)) =
        [LedBlinkUtility_Colors_Yellow]"
  using classify_thresholds [of "801 / 100" initial_state]
  by (simp add: initial_state_def)

section \<open>Properties of the distance measurement\<close>

lemma falling_edge_from_0: "falling_edge_from env 0 False = falling_edge_observed env"
  by (simp add: falling_edge_from_def falling_edge_observed_def atLeast0LessThan)

text \<open>Without a falling edge ahead, the loop leaves \<^verbatim>\<open>tsEnd\<close> as it was.\<close>

lemma poll_loop_no_edge:
  "\<not> falling_edge_from env i triggered \<Longrightarrow>
   fst (snd (poll_loop env i triggered tsStart tsEnd cs)) = tsEnd"
proof (induction env i triggered tsStart tsEnd cs rule: poll_loop.induct)
  case (1 env i triggered tsStart tsEnd cs)
  show ?case
  proof (cases "i < 10000")
    case False
    then show ?thesis by (subst poll_loop.simps) simp
  next
    case lt: True
    show ?thesis
    proof (cases "level env i")
      case high: True
      have next_ok: "\<not> falling_edge_from env (i + 1) True"
      proof
        assume "falling_edge_from env (i + 1) True"
        then obtain j where j: "i + 1 \<le> j" "j < 10000" "\<not> level env j"
          by (auto simp: falling_edge_from_def)
        with high lt have "falling_edge_from env i triggered"
          unfolding falling_edge_from_def
          by (intro bexI [of _ j] conjI disjI2 bexI [of _ i]) auto
        with "1.prems" show False by simp
      qed
      show ?thesis
      proof (cases triggered)
        case True
        with lt high next_ok "1.IH"(2) show ?thesis
          by (subst poll_loop.simps) simp
      next
        case False
        with lt high next_ok "1.IH"(1) show ?thesis
          by (subst poll_loop.simps) simp
      qed
    next
      case low: False
      show ?thesis
      proof (cases triggered)
        case True
        with lt low have "falling_edge_from env i triggered"
          unfolding falling_edge_from_def by (intro bexI [of _ i]) auto
        with "1.prems" show ?thesis by simp
      next
        case False
        have "\<not> falling_edge_from env (i + 1) triggered"
        proof
          assume "falling_edge_from env (i + 1) triggered"
          then obtain j k where "i + 1 \<le> j" "j < 10000" "\<not> level env j"
            "i + 1 \<le> k" "k < j" "level env k"
            using False by (auto simp: falling_edge_from_def)
          then have "falling_edge_from env i triggered"
            unfolding falling_edge_from_def
            by (intro bexI [of _ j] conjI disjI2 bexI [of _ k]) auto
          with "1.prems" show False by simp
        qed
        with lt low False "1.IH"(3) show ?thesis
          by (subst poll_loop.simps) simp
      qed
    qed
  qed
qed

lemma poll_loop_normalized:
  "normalized tsStart \<Longrightarrow> normalized tsEnd \<Longrightarrow>
   normalized (fst (poll_loop env i triggered tsStart tsEnd cs))
   \<and> normalized (fst (snd (poll_loop env i triggered tsStart tsEnd cs)))"
proof (induction env i triggered tsStart tsEnd cs rule: poll_loop.induct)
  case (1 env i triggered tsStart tsEnd cs)
  then show ?case
    by (subst (1 2) poll_loop.simps) (simp add: normalized_clock_reading)
qed

lemma poll_loop_observations:
  "reports (snd (snd (poll_loop env i triggered tsStart tsEnd cs))) = reports cs
   \<and> traffic_colors (snd (snd (poll_loop env i triggered tsStart tsEnd cs))) = traffic_colors cs"
proof (induction env i triggered tsStart tsEnd cs rule: poll_loop.induct)
  case (1 env i triggered tsStart tsEnd cs)
  then show ?case
    by (subst (1 2) poll_loop.simps) (simp add: reports_append traffic_colors_append)
qed

lemma GetUltrasonicReading_observations:
  "reports (snd (GetUltrasonicReading env)) = []
   \<and> traffic_colors (snd (GetUltrasonicReading env)) = []"
proof -
  let ?cs = "[GPIO_OpenAsOutput, nanosleep, GPIO_SetValue_Low, close_fd, GPIO_OpenAsInput]"
  let ?z = "\<lparr>tv_sec = 0, tv_nsec = 0\<rparr>"
  obtain a b cs where r: "poll_loop env 0 False ?z ?z ?cs = (a, b, cs)"
    by (metis prod_cases3)
  have "reports cs = []" "traffic_colors cs = []"
    using poll_loop_observations [of env 0 False ?z ?z ?cs] r by simp_all
  with r show ?thesis
    by (simp add: GetUltrasonicReading_def reports_append traffic_colors_append)
qed

lemma GetUltrasonicReading_failure:
  "open_output_fd env < 0 \<or> open_input_fd env < 0 \<Longrightarrow>
   fst (GetUltrasonicReading env) = - 1 \<and> GPIO_GetValue \<notin> set (snd (GetUltrasonicReading env))"
  by (auto simp: GetUltrasonicReading_def)

lemma GetUltrasonicReading_nonneg:
  assumes "0 \<le> open_output_fd env" and "0 \<le> open_input_fd env"
  shows "0 \<le> fst (GetUltrasonicReading env)"
proof -
  let ?cs = "[GPIO_OpenAsOutput, nanosleep, GPIO_SetValue_Low, close_fd, GPIO_OpenAsInput]"
  let ?z = "\<lparr>tv_sec = 0, tv_nsec = 0\<rparr>"
  obtain a b cs where r: "poll_loop env 0 False ?z ?z ?cs = (a, b, cs)"
    by (metis prod_cases3)
  have "normalized ?z" by (simp add: normalized_def)
  then have "normalized a" "normalized b"
    using poll_loop_normalized [of ?z ?z env 0 False ?cs] r by simp_all
  then have "0 \<le> tv_nsec (TimerUtility_TimerSubtract b a)"
    using TimerSubtract_normalized [of b a] by (simp add: normalized_def)
  with assms r show ?thesis
    by (simp add: GetUltrasonicReading_def)
qed

lemma GetUltrasonicReading_timeout:
  assumes "0 \<le> open_output_fd env" and "0 \<le> open_input_fd env"
    and "\<not> falling_edge_observed env"
  shows "fst (GetUltrasonicReading env) = 400"
proof -
  let ?cs = "[GPIO_OpenAsOutput, nanosleep, GPIO_SetValue_Low, close_fd, GPIO_OpenAsInput]"
  let ?z = "\<lparr>tv_sec = 0, tv_nsec = 0\<rparr>"
  obtain a b cs where r: "poll_loop env 0 False ?z ?z ?cs = (a, b, cs)"
    by (metis prod_cases3)
  have "\<not> falling_edge_from env 0 False"
    using assms(3) by (simp add: falling_edge_from_0)
  then have "b = ?z"
    using poll_loop_no_edge [of env 0 False ?z ?z ?cs] r by simp
  with assms r show ?thesis
    by (simp add: GetUltrasonicReading_def)
qed

lemma poll_loop_triggered:
  "triggered \<Longrightarrow> i \<le> f \<Longrightarrow> f < 10000 \<Longrightarrow> \<not> level env f \<Longrightarrow>
   (\<forall>j. i \<le> j \<and> j < f \<longrightarrow> level env j) \<Longrightarrow>
   fst (poll_loop env i triggered tsStart tsEnd cs) = tsStart
   \<and> fst (snd (poll_loop env i triggered tsStart tsEnd cs)) = clock_reading (clock_ns env f)"
proof (induction env i triggered tsStart tsEnd cs rule: poll_loop.induct)
  case (1 env i triggered tsStart tsEnd cs)
  from "1.prems" have lt: "i < 10000" by simp
  show ?case
  proof (cases "level env i")
    case True
    with "1.prems" have "i \<noteq> f" by auto
    with "1.prems" have "i + 1 \<le> f" by simp
    moreover from "1.prems" have "\<forall>j. i + 1 \<le> j \<and> j < f \<longrightarrow> level env j" by simp
    ultimately show ?thesis
      using "1.IH"(2) [OF lt True] "1.prems" lt True
      by (subst (1 2) poll_loop.simps) simp
  next
    case False
    with "1.prems" have "i = f"
      by (metis le_neq_implies_less order_refl)
    with False lt "1.prems"(1) show ?thesis
      by (subst (1 2) poll_loop.simps) simp
  qed
qed

lemma poll_loop_untriggered:
  "\<not> triggered \<Longrightarrow> i \<le> r \<Longrightarrow> r < f \<Longrightarrow> f < 10000 \<Longrightarrow> level env r \<Longrightarrow>
   (\<forall>k. i \<le> k \<and> k < r \<longrightarrow> \<not> level env k) \<Longrightarrow> \<not> level env f \<Longrightarrow>
   (\<forall>j. r < j \<and> j < f \<longrightarrow> level env j) \<Longrightarrow>
   fst (poll_loop env i triggered tsStart tsEnd cs) = clock_reading (clock_ns env r)
   \<and> fst (snd (poll_loop env i triggered tsStart tsEnd cs)) = clock_reading (clock_ns env f)"
proof (induction env i triggered tsStart tsEnd cs rule: poll_loop.induct)
  case (1 env i triggered tsStart tsEnd cs)
  from "1.prems" have lt: "i < 10000" by simp
  show ?case
  proof (cases "level env i")
    case True
    with "1.prems" have ir: "i = r"
      by (metis le_neq_implies_less order_refl)
    have "fst (poll_loop env (i + 1) True (clock_reading (clock_ns env i)) tsEnd
             (cs @ [GPIO_GetValue, clock_gettime (clock_reading (clock_ns env i))]))
           = clock_reading (clock_ns env i)
        \<and> fst (snd (poll_loop env (i + 1) True (clock_reading (clock_ns env i)) tsEnd
             (cs @ [GPIO_GetValue, clock_gettime (clock_reading (clock_ns env i))])))
           = clock_reading (clock_ns env f)"
      using "1.prems" ir by (intro poll_loop_triggered) simp_all
    with lt True "1.prems"(1) ir show ?thesis
      by (subst (1 2) poll_loop.simps) simp
  next
    case False
    with "1.prems" have "i \<noteq> r" by auto
    with "1.prems" have "i + 1 \<le> r" by simp
    moreover from "1.prems" have "\<forall>k. i + 1 \<le> k \<and> k < r \<longrightarrow> \<not> level env k" by simp
    ultimately show ?thesis
      using "1.IH"(3) [OF lt False] "1.prems" lt False
      by (subst (1 2) poll_loop.simps) simp
  qed
qed

lemma clock_reading_zero:
  "tv_sec (clock_reading n) = 0 \<and> tv_nsec (clock_reading n) = 0 \<longleftrightarrow> n = 0"
proof
  assume a: "tv_sec (clock_reading n) = 0 \<and> tv_nsec (clock_reading n) = 0"
  then have "n div 1000000000 = 0" "n mod 1000000000 = 0"
    by (simp_all add: clock_reading_def)
  then show "n = 0"
    by (metis add.right_neutral mult_div_mod_eq mult_zero_right)
next
  assume "n = 0"
  then show "tv_sec (clock_reading n) = 0 \<and> tv_nsec (clock_reading n) = 0"
    by (simp add: clock_reading_def)
qed

lemma GetUltrasonicReading_echo:
  assumes "0 \<le> open_output_fd env" and "0 \<le> open_input_fd env" and "echo_edges env r f"
  shows "fst (GetUltrasonicReading env) =
     (if clock_ns env f = 0 then 400
      else real_of_int (tv_nsec (TimerUtility_TimerSubtract
             (clock_reading (clock_ns env f)) (clock_reading (clock_ns env r)))) / 58000)"
proof -
  let ?cs = "[GPIO_OpenAsOutput, nanosleep, GPIO_SetValue_Low, close_fd, GPIO_OpenAsInput]"
  let ?z = "\<lparr>tv_sec = 0, tv_nsec = 0\<rparr>"
  obtain a b cs where p: "poll_loop env 0 False ?z ?z ?cs = (a, b, cs)"
    by (metis prod_cases3)
  from assms(3) have
    "fst (poll_loop env 0 False ?z ?z ?cs) = clock_reading (clock_ns env r)
     \<and> fst (snd (poll_loop env 0 False ?z ?z ?cs)) = clock_reading (clock_ns env f)"
    by (intro poll_loop_untriggered) (auto simp: echo_edges_def)
  with p have ab: "a = clock_reading (clock_ns env r)" "b = clock_reading (clock_ns env f)"
    by simp_all
  from assms(1,2) p show ?thesis
    using clock_reading_zero [of "clock_ns env f"]
    by (simp add: GetUltrasonicReading_def ab)
qed

lemma falling_edge_echo_edges:
  "falling_edge_observed env \<longleftrightarrow> (\<exists>f \<in> {..<10000}. \<exists>r \<in> {..<f}. echo_edges env r f)"
proof
  assume "falling_edge_observed env"
  then obtain j i where ji: "j < 10000" "\<not> level env j" "i < j" "level env i"
    by (auto simp: falling_edge_observed_def)
  define r where "r = (LEAST k. level env k)"
  have r1: "level env r" unfolding r_def using ji(4) by (rule LeastI)
  have r2: "r \<le> i" unfolding r_def using ji(4) by (rule Least_le)
  have r3: "\<not> level env k" if "k < r" for k
    using that not_less_Least unfolding r_def by blast
  define f where "f = (LEAST k. r < k \<and> \<not> level env k)"
  have ex: "r < j \<and> \<not> level env j" using r2 ji by simp
  have f1: "r < f \<and> \<not> level env f" unfolding f_def using ex by (rule LeastI)
  have f2: "f \<le> j" unfolding f_def using ex by (rule Least_le)
  have f3: "level env k" if "r < k" "k < f" for k
    using that not_less_Least [of k "\<lambda>k. r < k \<and> \<not> level env k"] unfolding f_def by blast
  have "echo_edges env r f"
    using r1 r3 f1 f2 f3 ji(1) by (auto simp: echo_edges_def)
  moreover have "f < 10000" "r < f" using f1 f2 ji(1) by simp_all
  ultimately show "\<exists>f \<in> {..<10000}. \<exists>r \<in> {..<f}. echo_edges env r f"
    by blast
next
  assume "\<exists>f \<in> {..<10000}. \<exists>r \<in> {..<f}. echo_edges env r f"
  then show "falling_edge_observed env"
    by (auto simp: echo_edges_def falling_edge_observed_def)
qed

lemma echo_env_edges: "echo_edges (echo_env w) 0 1"
  by (simp add: echo_edges_def echo_env_def)

text \<open>
  C3, as the code has it. The measurement returns -1 if and only if one of the two
  GPIO acquisitions fails, and then no poll is made. It returns 400 if and only if
  both acquisitions succeed and either no falling edge is observed within the 10000
  polls, or a falling edge is observed and the clock read at it is zero or its
  nanosecond difference from the clock read at the rising edge is exactly 23200000
  (a measured distance of 400). With an observed pulse the result is that
  nanosecond difference divided by 58000. The two sentinels differ, and 400 is
  never returned after a failed acquisition: the timeout is not a failure.
\<close>

theorem sensor_sentinels:
  "(fst (GetUltrasonicReading env) = - 1 \<longleftrightarrow> open_output_fd env < 0 \<or> open_input_fd env < 0)
   \<and> (open_output_fd env < 0 \<or> open_input_fd env < 0 \<longrightarrow>
        GPIO_GetValue \<notin> set (snd (GetUltrasonicReading env)))
   \<and> (fst (GetUltrasonicReading env) = 400 \<longleftrightarrow>
        0 \<le> open_output_fd env \<and> 0 \<le> open_input_fd env
        \<and> (\<not> falling_edge_observed env
           \<or> (\<exists>f \<in> {..<10000}. \<exists>r \<in> {..<f}. echo_edges env r f
                \<and> (clock_ns env f = 0
                   \<or> tv_nsec (TimerUtility_TimerSubtract (clock_reading (clock_ns env f))
                        (clock_reading (clock_ns env r))) = 23200000))))
   \<and> (0 \<le> open_output_fd env \<and> 0 \<le> open_input_fd env \<and> echo_edges env r f \<longrightarrow>
        fst (GetUltrasonicReading env) =
          (if clock_ns env f = 0 then 400
           else real_of_int (tv_nsec (TimerUtility_TimerSubtract
                  (clock_reading (clock_ns env f)) (clock_reading (clock_ns env r)))) / 58000))"
proof (cases "open_output_fd env < 0 \<or> open_input_fd env < 0")
  case True
  with GetUltrasonicReading_failure [OF True] show ?thesis by auto
next
  case False
  then have ok: "0 \<le> open_output_fd env" "0 \<le> open_input_fd env" by simp_all
  have m1: "fst (GetUltrasonicReading env) \<noteq> - 1"
    using GetUltrasonicReading_nonneg [OF ok] by simp
  have e: "fst (GetUltrasonicReading env) =
      (if clock_ns env f = 0 then 400
       else real_of_int (tv_nsec (TimerUtility_TimerSubtract
              (clock_reading (clock_ns env f)) (clock_reading (clock_ns env r)))) / 58000)"
    if "echo_edges env r f" for r f
    using ok that by (rule GetUltrasonicReading_echo)
  have t: "fst (GetUltrasonicReading env) = 400 \<longleftrightarrow>
      \<not> falling_edge_observed env
      \<or> (\<exists>f \<in> {..<10000}. \<exists>r \<in> {..<f}. echo_edges env r f
           \<and> (clock_ns env f = 0
              \<or> tv_nsec (TimerUtility_TimerSubtract (clock_reading (clock_ns env f))
                   (clock_reading (clock_ns env r))) = 23200000))"
  proof (cases "falling_edge_observed env")
    case False
    with GetUltrasonicReading_timeout [OF ok] show ?thesis by simp
  next
    case True
    then obtain f r where fr: "f \<in> {..<10000}" "r \<in> {..<f}" "echo_edges env r f"
      unfolding falling_edge_echo_edges by blast
    show ?thesis
    proof
      assume "fst (GetUltrasonicReading env) = 400"
      with e [OF fr(3)] have "clock_ns env f = 0
          \<or> tv_nsec (TimerUtility_TimerSubtract (clock_reading (clock_ns env f))
               (clock_reading (clock_ns env r))) = 23200000"
        by (simp split: if_splits)
      with fr show "\<not> falling_edge_observed env
          \<or> (\<exists>f \<in> {..<10000}. \<exists>r \<in> {..<f}. echo_edges env r f
               \<and> (clock_ns env f = 0
                  \<or> tv_nsec (TimerUtility_TimerSubtract (clock_reading (clock_ns env f))
                       (clock_reading (clock_ns env r))) = 23200000))"
        by blast
    next
      assume "\<not> falling_edge_observed env
          \<or> (\<exists>f \<in> {..<10000}. \<exists>r \<in> {..<f}. echo_edges env r f
               \<and> (clock_ns env f = 0
                  \<or> tv_nsec (TimerUtility_TimerSubtract (clock_reading (clock_ns env f))
                       (clock_reading (clock_ns env r))) = 23200000))"
      with True obtain f' r' where "echo_edges env r' f'"
        "clock_ns env f' = 0
          \<or> tv_nsec (TimerUtility_TimerSubtract (clock_reading (clock_ns env f'))
               (clock_reading (clock_ns env r'))) = 23200000"
        by blast
      with e [of r' f'] show "fst (GetUltrasonicReading env) = 400"
        by auto
    qed
  qed
  from False ok m1 t e show ?thesis by auto
qed

theorem sensor_sentinels_witness:
  "0 \<le> open_output_fd silent_env \<and> 0 \<le> open_input_fd silent_env
   \<and> \<not> falling_edge_observed silent_env
   \<and> fst (GetUltrasonicReading silent_env) = 400
   \<and> open_input_fd failing_env < 0
   \<and> fst (GetUltrasonicReading failing_env) = - 1
   \<and> GPIO_GetValue \<notin> set (snd (GetUltrasonicReading failing_env))
   \<and> 0 \<le> open_output_fd (echo_env 580000) \<and> 0 \<le> open_input_fd (echo_env 580000)
   \<and> echo_edges (echo_env 580000) 0 1
   \<and> fst (GetUltrasonicReading (echo_env 580000)) = 10"
proof -
  have s: "0 \<le> open_output_fd silent_env \<and> 0 \<le> open_input_fd silent_env
      \<and> \<not> falling_edge_observed silent_env"
    by (simp add: silent_env_def falling_edge_observed_def)
  have f: "open_input_fd failing_env < 0"
    by (simp add: failing_env_def)
  have "0 \<le> open_output_fd (echo_env 580000)" "0 \<le> open_input_fd (echo_env 580000)"
    by (simp_all add: echo_env_def)
  with echo_env_edges [of 580000]
  have e: "0 \<le> open_output_fd (echo_env 580000) \<and> 0 \<le> open_input_fd (echo_env 580000)
      \<and> echo_edges (echo_env 580000) 0 1"
    by (intro conjI)
  have c: "clock_ns (echo_env 580000) 1 \<noteq> 0"
    "real_of_int (tv_nsec (TimerUtility_TimerSubtract
        (clock_reading (clock_ns (echo_env 580000) 1))
        (clock_reading (clock_ns (echo_env 580000) 0)))) / 58000 = 10"
    by (simp_all add: echo_env_def clock_reading_def TimerSubtract_nsec normalized_def)
  from sensor_sentinels [of silent_env 0 1] s
  have s4: "fst (GetUltrasonicReading silent_env) = 400" by blast
  from sensor_sentinels [of failing_env 0 1] f
  have f1: "fst (GetUltrasonicReading failing_env) = - 1"
    "GPIO_GetValue \<notin> set (snd (GetUltrasonicReading failing_env))" by blast+
  from sensor_sentinels [of "echo_env 580000" 0 1] e
  have "fst (GetUltrasonicReading (echo_env 580000)) =
      (if clock_ns (echo_env 580000) 1 = 0 then 400
       else real_of_int (tv_nsec (TimerUtility_TimerSubtract
              (clock_reading (clock_ns (echo_env 580000) 1))
              (clock_reading (clock_ns (echo_env 580000) 0)))) / 58000)"
    by blast
  with c have e10: "fst (GetUltrasonicReading (echo_env 580000)) = 10"
    by (simp only: if_False)
  from s s4 f f1 e e10 show ?thesis
    by (intro conjI) simp_all
qed

text \<open>
  C3 as stated fails: with both acquisitions successful, an echo pulse of
  23200000 ns is a falling edge observed at the second poll, and the measured
  distance 23200000 / 58000 is 400, the value of the timeout sentinel.
\<close>

theorem timeout_sentinel_counterexample:
  "0 \<le> open_output_fd (echo_env 23200000) \<and> 0 \<le> open_input_fd (echo_env 23200000)
   \<and> falling_edge_observed (echo_env 23200000)
   \<and> fst (GetUltrasonicReading (echo_env 23200000)) = 400"
proof -
  have "falling_edge_observed (echo_env 23200000)"
    unfolding falling_edge_observed_def echo_env_def
    by (intro bexI [of _ 1] conjI bexI [of _ 0]) simp_all
  moreover have "fst (GetUltrasonicReading (echo_env 23200000)) = 400"
    by (simp add: GetUltrasonicReading_def echo_env_def poll_loop.simps clock_reading_def
        TimerSubtract_nsec normalized_def)
  ultimately show ?thesis by (simp add: echo_env_def)
qed

section \<open>Properties of the timer handler\<close>

lemma handler_calls:
  "consume_rc t = 0 \<Longrightarrow>
   UltrasonicTimerEventHandler t s =
     classify_and_report (fst (GetUltrasonicReading (gpio t)))
       (s\<lparr>calls := calls s @ ConsumeTimerFdEvent # snd (GetUltrasonicReading (gpio t))\<rparr>)"
  by (simp add: UltrasonicTimerEventHandler_def emit_def Let_def split: prod.splits)

text \<open>
  C10. When the timer event is consumed and the measurement returns -1, the handler
  classifies it like any distance: occupancy true and a Red traffic LED, and a report
  of 1 when the stored occupancy was false and the client is connected. When the
  measurement returns 400: occupancy false and Green, and a report of 0 when the
  stored occupancy was true and the client is connected.
\<close>

theorem sentinels_are_classified:
  assumes "consume_rc t = 0"
  shows "(fst (GetUltrasonicReading (gpio t)) = - 1 \<longrightarrow>
            occupiedState (UltrasonicTimerEventHandler t s)
            \<and> traffic_colors (calls (UltrasonicTimerEventHandler t s)) =
                traffic_colors (calls s) @ [LedBlinkUtility_Colors_Red]
            \<and> reports (calls (UltrasonicTimerEventHandler t s)) =
                reports (calls s) @
                  (if \<not> occupiedState s \<and> connectedToIoTHub s then [1] else []))
       \<and> (fst (GetUltrasonicReading (gpio t)) = 400 \<longrightarrow>
            \<not> occupiedState (UltrasonicTimerEventHandler t s)
            \<and> traffic_colors (calls (UltrasonicTimerEventHandler t s)) =
                traffic_colors (calls s) @ [LedBlinkUtility_Colors_Green]
            \<and> reports (calls (UltrasonicTimerEventHandler t s)) =
                reports (calls s) @
                  (if occupiedState s \<and> connectedToIoTHub s then [0] else []))"
  using GetUltrasonicReading_observations [of "gpio t"]
  by (auto simp: handler_calls [OF assms] classify_occupied classify_traffic classify_reports
      reports_append traffic_colors_append)

theorem sentinels_are_classified_witness:
  "consume_rc \<lparr>consume_rc = 0, gpio = failing_env, traffic_led_rc = 0\<rparr> = 0
   \<and> fst (GetUltrasonicReading failing_env) = - 1
   \<and> reports (calls (UltrasonicTimerEventHandler
         \<lparr>consume_rc = 0, gpio = failing_env, traffic_led_rc = 0\<rparr>
         (initial_state\<lparr>connectedToIoTHub := True\<rparr>))) = [1]
   \<and> traffic_colors (calls (UltrasonicTimerEventHandler
         \<lparr>consume_rc = 0, gpio = failing_env, traffic_led_rc = 0\<rparr>
         (initial_state\<lparr>connectedToIoTHub := True\<rparr>))) = [LedBlinkUtility_Colors_Red]"
proof -
  have f: "fst (GetUltrasonicReading failing_env) = - 1"
    by (simp add: GetUltrasonicReading_def failing_env_def)
  with sentinels_are_classified
    [of "\<lparr>consume_rc = 0, gpio = failing_env, traffic_led_rc = 0\<rparr>"
      "initial_state\<lparr>connectedToIoTHub := True\<rparr>"]
  show ?thesis by (simp add: initial_state_def)
qed

section \<open>Properties of the main loop\<close>

lemma poll_loop_counts:
  "c = AzureIoT_SetupClient \<or> c = AzureIoT_DoPeriodicTasks \<Longrightarrow>
   count_list (snd (snd (poll_loop env i triggered tsStart tsEnd cs))) c = count_list cs c"
proof (induction env i triggered tsStart tsEnd cs rule: poll_loop.induct)
  case (1 env i triggered tsStart tsEnd cs)
  then show ?case
    by (subst poll_loop.simps) auto
qed

lemma GetUltrasonicReading_counts:
  assumes "c = AzureIoT_SetupClient \<or> c = AzureIoT_DoPeriodicTasks"
  shows "count_list (snd (GetUltrasonicReading env)) c = 0"
proof -
  let ?cs = "[GPIO_OpenAsOutput, nanosleep, GPIO_SetValue_Low, close_fd, GPIO_OpenAsInput]"
  let ?z = "\<lparr>tv_sec = 0, tv_nsec = 0\<rparr>"
  obtain a b cs where r: "poll_loop env 0 False ?z ?z ?cs = (a, b, cs)"
    by (metis prod_cases3)
  have "count_list cs c = count_list ?cs c"
    using poll_loop_counts [OF assms, of env 0 False ?z ?z ?cs] r by simp
  with r assms show ?thesis
    by (auto simp: GetUltrasonicReading_def)
qed

lemma ReportStatus_counts:
  "c = AzureIoT_SetupClient \<or> c = AzureIoT_DoPeriodicTasks \<Longrightarrow>
   count_list (calls (ReportStatusToIotHub b s)) c = count_list (calls s) c"
  by (auto simp: ReportStatus_calls)

lemma ReportStatus_locals:
  "next_iothub_connect (ReportStatusToIotHub b s) = next_iothub_connect s
   \<and> iothub_connected (ReportStatusToIotHub b s) = iothub_connected s"
  by (simp add: ReportStatusToIotHub_def emit_def Let_def)

lemma classify_counts:
  "c = AzureIoT_SetupClient \<or> c = AzureIoT_DoPeriodicTasks \<Longrightarrow>
   count_list (calls (classify_and_report cms s)) c = count_list (calls s) c"
  by (auto simp: classify_calls ReportStatus_counts)

lemma classify_locals:
  "next_iothub_connect (classify_and_report cms s) = next_iothub_connect s
   \<and> iothub_connected (classify_and_report cms s) = iothub_connected s"
  by (simp add: classify_and_report_def emit_def ReportStatus_locals)

lemma handler_counts:
  assumes "c = AzureIoT_SetupClient \<or> c = AzureIoT_DoPeriodicTasks"
  shows "count_list (calls (UltrasonicTimerEventHandler t s)) c = count_list (calls s) c"
proof (cases "consume_rc t = 0")
  case True
  with assms GetUltrasonicReading_counts [OF assms, of "gpio t"] show ?thesis
    by (auto simp: handler_calls classify_counts)
next
  case False
  with assms show ?thesis
    by (auto simp: UltrasonicTimerEventHandler_def emit_def Let_def)
qed

lemma handler_locals:
  "next_iothub_connect (UltrasonicTimerEventHandler t s) = next_iothub_connect s
   \<and> iothub_connected (UltrasonicTimerEventHandler t s) = iothub_connected s"
proof (cases "consume_rc t = 0")
  case True
  then show ?thesis by (simp add: handler_calls classify_locals)
next
  case False
  then show ?thesis by (simp add: UltrasonicTimerEventHandler_def emit_def Let_def)
qed

lemma deliver_fields:
  "calls (deliver n s) = calls s \<and> next_iothub_connect (deliver n s) = next_iothub_connect s
   \<and> iothub_connected (deliver n s) = iothub_connected s
   \<and> terminationRequired (deliver n s) = terminationRequired s"
  by (simp add: deliver_def IoTHubConnectionStatusChanged_def split: option.splits)

lemma retry_step_facts:
  "setup_calls (retry_step e x) =
     setup_calls x +
       (if TimerUtility_TimerCompareGreater (clock_reading (now_ns e)) (next_iothub_connect x)
        then 1 else 0)
   \<and> maintenance_calls (retry_step e x) = maintenance_calls x
   \<and> next_iothub_connect (retry_step e x) =
       (if TimerUtility_TimerCompareGreater (clock_reading (now_ns e)) (next_iothub_connect x)
        then TimerUtility_TimerAdd (clock_reading (after_ns e)) iothub_retry_period
        else next_iothub_connect x)
   \<and> iothub_connected (retry_step e x) =
       (if TimerUtility_TimerCompareGreater (clock_reading (now_ns e)) (next_iothub_connect x)
        then setup_result e else iothub_connected x)"
  by (simp add: retry_step_def Let_def setup_calls_def maintenance_calls_def emit_def
      deliver_fields)

lemma maintenance_step_facts:
  "setup_calls (maintenance_step e x) = setup_calls x
   \<and> maintenance_calls (maintenance_step e x) =
       maintenance_calls x + (if iothub_connected x then 1 else 0)
   \<and> next_iothub_connect (maintenance_step e x) = next_iothub_connect x
   \<and> iothub_connected (maintenance_step e x) = iothub_connected x"
  by (simp add: maintenance_step_def setup_calls_def maintenance_calls_def emit_def
      deliver_fields)

lemma loop_head_facts:
  "setup_calls (loop_head e s) = setup_calls s
   \<and> maintenance_calls (loop_head e s) = maintenance_calls s
   \<and> next_iothub_connect (loop_head e s) = next_iothub_connect s
   \<and> iothub_connected (loop_head e s) = iothub_connected s"
  by (simp add: loop_head_def Let_def setup_calls_def maintenance_calls_def emit_def
      handler_counts handler_locals split: option.splits)

lemma sleep_step_facts:
  "setup_calls (sleep_step e x) = setup_calls x
   \<and> maintenance_calls (sleep_step e x) = maintenance_calls x
   \<and> next_iothub_connect (sleep_step e x) = next_iothub_connect x
   \<and> iothub_connected (sleep_step e x) = iothub_connected x"
  by (simp add: sleep_step_def Let_def TerminationHandler_def setup_calls_def
      maintenance_calls_def emit_def)

lemma loop_body_break:
  assumes "network_led_rc e \<noteq> 0"
  shows "fst (loop_body e s) = Break
       \<and> setup_calls (snd (loop_body e s)) = setup_calls s
       \<and> maintenance_calls (snd (loop_body e s)) = maintenance_calls s
       \<and> next_iothub_connect (snd (loop_body e s)) = next_iothub_connect s
       \<and> iothub_connected (snd (loop_body e s)) = iothub_connected s"
proof -
  have b: "loop_body e s =
      (Break, emit (Log_Debug ''ERROR: Set color for network status LED failed'') (loop_head e s))"
    using assms by (simp add: loop_body_def Let_def)
  have "setup_calls (emit (Log_Debug ''ERROR: Set color for network status LED failed'')
          (loop_head e s)) = setup_calls (loop_head e s)"
    "maintenance_calls (emit (Log_Debug ''ERROR: Set color for network status LED failed'')
          (loop_head e s)) = maintenance_calls (loop_head e s)"
    by (simp_all add: setup_calls_def maintenance_calls_def emit_def)
  with b show ?thesis
    by (simp add: loop_head_facts) (simp add: emit_def loop_head_facts)
qed

lemma loop_body_continue:
  assumes "network_led_rc e = 0"
  shows "fst (loop_body e s) = Continue
       \<and> setup_calls (snd (loop_body e s)) =
           setup_calls s +
             (if TimerUtility_TimerCompareGreater (clock_reading (now_ns e))
                   (next_iothub_connect s)
              then 1 else 0)
       \<and> next_iothub_connect (snd (loop_body e s)) =
           (if TimerUtility_TimerCompareGreater (clock_reading (now_ns e))
                 (next_iothub_connect s)
            then TimerUtility_TimerAdd (clock_reading (after_ns e)) iothub_retry_period
            else next_iothub_connect s)
       \<and> iothub_connected (snd (loop_body e s)) =
           (if TimerUtility_TimerCompareGreater (clock_reading (now_ns e))
                 (next_iothub_connect s)
            then setup_result e else iothub_connected s)
       \<and> maintenance_calls (snd (loop_body e s)) =
           maintenance_calls s + (if iothub_connected (snd (loop_body e s)) then 1 else 0)"
proof -
  have c: "loop_body e s =
      (Continue, sleep_step e (maintenance_step e (retry_step e (loop_head e s))))"
    using assms by (simp add: loop_body_def Let_def)
  show ?thesis
    by (simp add: c sleep_step_facts maintenance_step_facts retry_step_facts loop_head_facts)
qed

lemma attempted_iff:
  "attempted e s \<longleftrightarrow>
     network_led_rc e = 0
     \<and> TimerUtility_TimerCompareGreater (clock_reading (now_ns e)) (next_iothub_connect s)"
proof (cases "network_led_rc e = 0")
  case True
  from loop_body_continue [OF True, of s] show ?thesis
    by (simp add: attempted_def True)
next
  case False
  from loop_body_break [OF False, of s] show ?thesis
    by (simp add: attempted_def False)
qed

lemma deadline_after_attempt:
  "attempted e s \<Longrightarrow>
   next_iothub_connect (snd (loop_body e s)) =
     TimerUtility_TimerAdd (clock_reading (after_ns e)) iothub_retry_period"
  using loop_body_continue [of e s] by (simp add: attempted_iff)

lemma deadline_without_attempt:
  "\<not> attempted e s \<Longrightarrow> next_iothub_connect (snd (loop_body e s)) = next_iothub_connect s"
  using loop_body_continue [of e s] loop_body_break [of e s]
  by (cases "network_led_rc e = 0") (simp_all add: attempted_iff)

lemma normalized_retry_period: "normalized iothub_retry_period"
  by (simp add: normalized_def iothub_retry_period_def)

lemma nanos_retry_deadline:
  "nanos (TimerUtility_TimerAdd (clock_reading n) iothub_retry_period) = int n + 1000000000"
  by (simp add: TimerAdd_nanos nanos_clock_reading) (simp add: nanos_def iothub_retry_period_def)

lemma spaced_Cons:
  "spaced (a # r) \<longleftrightarrow> spaced r \<and> (case r of [] \<Rightarrow> True | b # _ \<Rightarrow> snd a + 1000000000 < fst b)"
  by (cases r) auto

lemma attempt_log_spaced:
  "normalized (next_iothub_connect s) \<Longrightarrow>
   spaced (attempt_log es s)
   \<and> (case attempt_log es s of [] \<Rightarrow> True
       | a # _ \<Rightarrow> nanos (next_iothub_connect s) < int (fst a))"
proof (induction es arbitrary: s)
  case Nil
  then show ?case by simp
next
  case (Cons e es)
  show ?case
  proof (cases "terminationRequired s")
    case True
    then show ?thesis by simp
  next
    case live: False
    show ?thesis
    proof (cases "network_led_rc e = 0")
      case False
      obtain s' where b: "loop_body e s = (Break, s')"
        using loop_body_break [OF False, of s] by (cases "loop_body e s") simp
      with False live show ?thesis
        by (simp add: attempted_iff)
    next
      case ok: True
      obtain s' where b: "loop_body e s = (Continue, s')"
        using loop_body_continue [OF ok, of s] by (cases "loop_body e s") simp
      show ?thesis
      proof (cases "attempted e s")
        case True
        then have gt: "nanos (next_iothub_connect s) < int (now_ns e)"
          using Cons.prems
          by (simp add: attempted_iff TimerCompareGreater_nanos normalized_clock_reading
              nanos_clock_reading)
        have d: "next_iothub_connect s' =
            TimerUtility_TimerAdd (clock_reading (after_ns e)) iothub_retry_period"
          using deadline_after_attempt [OF True] b by simp
        then have n: "normalized (next_iothub_connect s')"
          by (simp add: TimerAdd_normalized normalized_clock_reading normalized_retry_period)
        have l: "attempt_log (e # es) s = (now_ns e, after_ns e) # attempt_log es s'"
          using live True b by simp
        have ih: "spaced (attempt_log es s')"
          "case attempt_log es s' of [] \<Rightarrow> True
           | a # _ \<Rightarrow> int (after_ns e) + 1000000000 < int (fst a)"
          using Cons.IH [OF n] unfolding d nanos_retry_deadline by simp_all
        have "spaced ((now_ns e, after_ns e) # attempt_log es s')"
        proof (cases "attempt_log es s'")
          case Nil
          then show ?thesis by simp
        next
          case (Cons a r)
          with ih show ?thesis by simp
        qed
        with gt show ?thesis
          unfolding l by simp
      next
        case False
        then have d: "next_iothub_connect s' = next_iothub_connect s"
          using deadline_without_attempt [OF False] b by simp
        have l: "attempt_log (e # es) s = attempt_log es s'"
          using live False b by simp
        from Cons.IH [of s'] Cons.prems show ?thesis
          unfolding l d by simp
      qed
    qed
  qed
qed

lemma main_startup_deadline:
  "next_iothub_connect (main_startup ie) = clock_reading (start_ns ie)"
  by (simp add: main_startup_def Let_def emit_def)

text \<open>
  C5. In every iteration of the loop of \<^verbatim>\<open>main\<close> the client setup is called only when the
  clock read at line 273 is greater than the stored deadline (and the iteration has
  got past the network LED). After a call, successful or not, the deadline is the
  clock read right after the call (line 276) plus the retry period of one second;
  without a call the deadline is unchanged. So in every run each attempt starts more
  than one second after the attempt before it has ended.
\<close>

theorem retry_deadline_respected:
  "(attempted e s \<longleftrightarrow>
      network_led_rc e = 0
      \<and> TimerUtility_TimerCompareGreater (clock_reading (now_ns e)) (next_iothub_connect s))
   \<and> (attempted e s \<longrightarrow>
        next_iothub_connect (snd (loop_body e s)) =
          TimerUtility_TimerAdd (clock_reading (after_ns e)) iothub_retry_period
        \<and> nanos (next_iothub_connect (snd (loop_body e s))) = int (after_ns e) + 1000000000)
   \<and> (\<not> attempted e s \<longrightarrow>
        next_iothub_connect (snd (loop_body e s)) = next_iothub_connect s)
   \<and> setup_calls (snd (loop_body e s)) = setup_calls s + (if attempted e s then 1 else 0)
   \<and> (normalized (next_iothub_connect s) \<longrightarrow> spaced (attempt_log es s))
   \<and> spaced (attempt_log es (main_startup ie))"
proof -
  have "normalized (next_iothub_connect (main_startup ie))"
    by (simp add: main_startup_deadline normalized_clock_reading)
  then have m: "spaced (attempt_log es (main_startup ie))"
    using attempt_log_spaced by blast
  have c: "setup_calls (snd (loop_body e s)) = setup_calls s + (if attempted e s then 1 else 0)"
    using loop_body_continue [of e s] loop_body_break [of e s]
    by (cases "network_led_rc e = 0") (simp_all add: attempted_iff)
  show ?thesis
    using attempted_iff [of e s] deadline_after_attempt [of e s]
      deadline_without_attempt [of e s] attempt_log_spaced [of s es] m c
    by (simp add: nanos_retry_deadline)
qed

lemmas run_defs = quiet_iter_def good_init_def
  TimerUtility_TimerCompareGreater_def clock_reading_def TimerUtility_TimerAdd_def
  iothub_retry_period_def Let_def main_startup_def InitPeripheralsAndHandlers_def emit_def
  initial_state_def loop_body_def loop_head_def retry_step_def maintenance_step_def
  sleep_step_def deliver_def attempted_def setup_calls_def maintenance_calls_def
  IoTHubConnectionStatusChanged_def TerminationHandler_def

theorem retry_deadline_respected_witness:
  "attempted (quiet_iter 1500000000 True None) (main_startup good_init)
   \<and> nanos (next_iothub_connect
        (snd (loop_body (quiet_iter 1500000000 True None) (main_startup good_init)))) = 2500001000
   \<and> \<not> attempted (quiet_iter 1000000000 True None) (main_startup good_init)
   \<and> normalized (next_iothub_connect (main_startup good_init))
   \<and> attempt_log [quiet_iter 1500000000 True None, quiet_iter 2000000000 True None,
        quiet_iter 2600000000 True None] (main_startup good_init) =
       [(1500000000, 1500001000), (2600000000, 2600001000)]
   \<and> spaced [(1500000000, 1500001000), (2600000000, 2600001000)]"
proof -
  let ?e = "quiet_iter 1500000000 True None"
  let ?es = "[quiet_iter 1500000000 True None, quiet_iter 2000000000 True None,
        quiet_iter 2600000000 True None]"
  have d: "next_iothub_connect (main_startup good_init) = \<lparr>tv_sec = 1, tv_nsec = 0\<rparr>"
    by (simp add: main_startup_deadline good_init_def clock_reading_def)
  have a: "attempted ?e (main_startup good_init)"
    by (simp add: attempted_iff d)
      (simp add: quiet_iter_def clock_reading_def TimerUtility_TimerCompareGreater_def)
  have b: "\<not> attempted (quiet_iter 1000000000 True None) (main_startup good_init)"
    by (simp add: attempted_iff d)
      (simp add: quiet_iter_def clock_reading_def TimerUtility_TimerCompareGreater_def)
  have n: "normalized (next_iothub_connect (main_startup good_init))"
    by (simp add: d normalized_def)
  have l: "attempt_log ?es (main_startup good_init) =
       [(1500000000, 1500001000), (2600000000, 2600001000)]"
    by (simp add: run_defs)
  note t = retry_deadline_respected [of ?e "main_startup good_init" ?es good_init]
  from t a have k: "nanos (next_iothub_connect (snd (loop_body ?e (main_startup good_init)))) =
      int (after_ns ?e) + 1000000000"
    by blast
  have "int (after_ns ?e) + 1000000000 = 2500001000"
    by (simp add: quiet_iter_def)
  with k have k': "nanos (next_iothub_connect (snd (loop_body ?e (main_startup good_init)))) =
      2500001000"
    by (simp only:)
  from t have "spaced (attempt_log ?es (main_startup good_init))"
    by blast
  then have sp: "spaced [(1500000000, 1500001000), (2600000000, 2600001000)]"
    by (simp only: l)
  from a k' b n l sp show ?thesis
    by (intro conjI)
qed

text \<open>
  C6, as the code has it. In every iteration that gets past the network LED, the
  periodic maintenance is called exactly once when \<^verbatim>\<open>iothub_connected\<close>, the result
  of the latest client setup (possibly made in this very iteration), is true, and
  not at all when it is false. An iteration that is left at the network LED calls
  no maintenance.
\<close>

theorem maintenance_follows_setup_result:
  "(network_led_rc e = 0 \<longrightarrow>
      maintenance_calls (snd (loop_body e s)) =
        maintenance_calls s + (if iothub_connected (snd (loop_body e s)) then 1 else 0)
      \<and> iothub_connected (snd (loop_body e s)) =
          (if attempted e s then setup_result e else iothub_connected s))
   \<and> (network_led_rc e \<noteq> 0 \<longrightarrow>
        maintenance_calls (snd (loop_body e s)) = maintenance_calls s)"
  using loop_body_continue [of e s] loop_body_break [of e s]
  by (simp add: attempted_iff)

theorem maintenance_follows_setup_result_witness:
  "network_led_rc (quiet_iter 1500000000 True (Some True)) = 0
   \<and> iothub_connected (snd (loop_body (quiet_iter 1500000000 True (Some True))
        (main_startup good_init)))
   \<and> maintenance_calls (snd (loop_body (quiet_iter 1500000000 True (Some True))
        (main_startup good_init))) = 1"
proof -
  let ?e = "quiet_iter 1500000000 True (Some True)"
  have d: "next_iothub_connect (main_startup good_init) = \<lparr>tv_sec = 1, tv_nsec = 0\<rparr>"
    by (simp add: main_startup_deadline good_init_def clock_reading_def)
  have a: "attempted ?e (main_startup good_init)"
    by (simp add: attempted_iff d)
      (simp add: quiet_iter_def clock_reading_def TimerUtility_TimerCompareGreater_def)
  have z: "maintenance_calls (main_startup good_init) = 0"
    by (simp add: run_defs)
  from maintenance_follows_setup_result [of ?e "main_startup good_init"] a z
  show ?thesis by (simp add: quiet_iter_def)
qed

text \<open>
  C6 as stated fails. After one iteration that connects, both the flag set by the
  status notification and \<^verbatim>\<open>iothub_connected\<close> are true. In a next iteration in
  which the client setup is retried and fails, the notification flag stays true
  and no maintenance is called; in a next iteration in which setting the network
  LED fails, the loop is left before the maintenance.
\<close>

theorem maintenance_counterexample:
  "main_loop [quiet_iter 1500000000 True (Some True)] (main_startup good_init) =
     Pending connected_state
   \<and> connectedToIoTHub connected_state \<and> iothub_connected connected_state
   \<and> fst (loop_body (quiet_iter 3000000000 False None) connected_state) = Continue
   \<and> connectedToIoTHub (snd (loop_body (quiet_iter 3000000000 False None) connected_state))
   \<and> maintenance_calls (snd (loop_body (quiet_iter 3000000000 False None) connected_state)) =
       maintenance_calls connected_state
   \<and> fst (loop_body ((quiet_iter 3000000000 True None)\<lparr>network_led_rc := - 1\<rparr>)
        connected_state) = Break
   \<and> maintenance_calls
        (snd (loop_body ((quiet_iter 3000000000 True None)\<lparr>network_led_rc := - 1\<rparr>)
           connected_state)) = maintenance_calls connected_state"
  by (simp add: run_defs connected_state_def)

text \<open>
  When \<^verbatim>\<open>CreateEpollFd\<close> fails, \<^verbatim>\<open>InitPeripheralsAndHandlers\<close> returns -1, the loop is
  not entered and \<^verbatim>\<open>main\<close> shuts down.
\<close>

lemma epoll_failure_aborts:
  assumes "epoll_fd ie < 0"
  shows "fst (InitPeripheralsAndHandlers ie s) = - 1
       \<and> main ie es = Exited (main_shutdown (main_startup ie))
       \<and> WaitForEventAndCallHandler \<notin> set (calls (main_shutdown (main_startup ie)))"
proof -
  have i: "fst (InitPeripheralsAndHandlers ie s) = - 1" for s
    using assms by (simp add: InitPeripheralsAndHandlers_def Let_def emit_def)
  have t: "terminationRequired (main_startup ie)"
    using i by (simp add: main_startup_def Let_def emit_def)
  have m: "main_loop es (main_startup ie) = Exited (main_startup ie)"
    using t by (cases es) simp_all
  have "WaitForEventAndCallHandler \<notin> set (calls (main_shutdown (main_startup ie)))"
    using assms
    by (simp add: main_shutdown_def ClosePeripheralsAndHandlers_def main_startup_def
        InitPeripheralsAndHandlers_def Let_def emit_def initial_state_def)
  with i m show ?thesis by (simp add: main_def)
qed

text \<open>
  C7 at the failing input. When only \<^verbatim>\<open>CreateTimerFdAndAddToEpoll\<close> fails,
  \<^verbatim>\<open>InitPeripheralsAndHandlers\<close> stores the negative descriptor and returns 0:
  \<^verbatim>\<open>main\<close> does not set \<^verbatim>\<open>terminationRequired\<close> and enters the loop.
\<close>

theorem timer_failure_not_reported:
  "fst (InitPeripheralsAndHandlers timer_fail_init initial_state) = 0
   \<and> usTimerFd (snd (InitPeripheralsAndHandlers timer_fail_init initial_state)) = - 1
   \<and> \<not> terminationRequired (main_startup timer_fail_init)
   \<and> main timer_fail_init [quiet_iter 1500000000 True None] =
       Pending (run_state (main timer_fail_init [quiet_iter 1500000000 True None]))
   \<and> WaitForEventAndCallHandler \<in>
       set (calls (run_state (main timer_fail_init [quiet_iter 1500000000 True None])))"
  by (simp add: run_defs timer_fail_init_def main_def)

lemma main_loop_append:
  "main_loop es1 s = Pending s' \<Longrightarrow> main_loop (es1 @ es2) s = main_loop es2 s'"
proof (induction es1 arbitrary: s)
  case Nil
  then show ?case by (cases es2) (simp_all split: if_splits)
next
  case (Cons e es1)
  then show ?case
    by (simp split: if_splits prod.splits loop_exit.splits)
qed

lemma main_loop_Pending_live:
  "main_loop es s = Pending s' \<Longrightarrow> \<not> terminationRequired s'"
  by (induction es arbitrary: s) (simp_all split: if_splits prod.splits loop_exit.splits)

lemma main_shutdown_calls:
  "calls (main_shutdown s) =
     calls s @
       [LedBlinkUtility_SetLed ledTraffic LedBlinkUtility_Colors_Off, LedBlinkUtility_CloseLeds,
        Log_Debug ''Closing file descriptors'', CloseFdAndPrintError ''USTimer'',
        CloseFdAndPrintError ''Epoll'', Log_Debug ''Application exiting'']"
  by (simp add: main_shutdown_def ClosePeripheralsAndHandlers_def Let_def emit_def)

text \<open>
  C8, as the code has it. When, in a run of \<^verbatim>\<open>main\<close> that is still in its loop, setting
  the network LED fails, the iteration is left through \<^verbatim>\<open>break\<close>: whatever the rest of
  the script, \<^verbatim>\<open>main\<close> leaves the loop in that iteration and runs the shutdown
  (traffic LED off, LEDs closed, descriptors closed).
\<close>

theorem network_led_failure_is_fatal:
  assumes "main_loop es1 (main_startup ie) = Pending s" and "network_led_rc e \<noteq> 0"
  shows "fst (loop_body e s) = Break
       \<and> main ie (es1 @ e # es2) = Exited (main_shutdown (snd (loop_body e s)))
       \<and> calls (main_shutdown (snd (loop_body e s))) =
           calls (loop_head e s) @
             [Log_Debug ''ERROR: Set color for network status LED failed'',
              LedBlinkUtility_SetLed ledTraffic LedBlinkUtility_Colors_Off,
              LedBlinkUtility_CloseLeds, Log_Debug ''Closing file descriptors'',
              CloseFdAndPrintError ''USTimer'', CloseFdAndPrintError ''Epoll'',
              Log_Debug ''Application exiting'']"
proof -
  have live: "\<not> terminationRequired s"
    using assms(1) by (rule main_loop_Pending_live)
  have b: "loop_body e s =
      (Break, emit (Log_Debug ''ERROR: Set color for network status LED failed'') (loop_head e s))"
    using assms(2) by (simp add: loop_body_def Let_def)
  have "main_loop (es1 @ e # es2) (main_startup ie) = main_loop (e # es2) s"
    using assms(1) by (rule main_loop_append)
  also have "\<dots> = Exited (snd (loop_body e s))"
    using live b by simp
  finally have "main ie (es1 @ e # es2) = Exited (main_shutdown (snd (loop_body e s)))"
    by (simp add: main_def)
  with b show ?thesis
    by (simp add: main_shutdown_calls calls_emit)
qed

theorem network_led_failure_is_fatal_witness:
  "main_loop [] (main_startup good_init) = Pending (main_startup good_init)
   \<and> network_led_rc ((quiet_iter 1500000000 True None)\<lparr>network_led_rc := - 1\<rparr>) \<noteq> 0
   \<and> main good_init [(quiet_iter 1500000000 True None)\<lparr>network_led_rc := - 1\<rparr>,
        quiet_iter 2000000000 True None] =
       Exited (main_shutdown
         (snd (loop_body ((quiet_iter 1500000000 True None)\<lparr>network_led_rc := - 1\<rparr>)
            (main_startup good_init))))"
proof -
  have p: "main_loop [] (main_startup good_init) = Pending (main_startup good_init)"
    by (simp add: run_defs)
  have f: "network_led_rc ((quiet_iter 1500000000 True None)\<lparr>network_led_rc := - 1\<rparr>) \<noteq> 0"
    by simp
  from p f network_led_failure_is_fatal [OF p f, of "[quiet_iter 2000000000 True None]"]
  show ?thesis by simp
qed

text \<open>
  C8 as stated fails. In an iteration in which the timer handler sets the traffic
  LED and that call fails, the result is not read: the loop is not left, and the
  next iteration runs.
\<close>

theorem traffic_led_failure_counterexample:
  "timer_tick traffic_fail_iter =
     Some \<lparr>consume_rc = 0, gpio = echo_env 580000, traffic_led_rc = - 1\<rparr>
   \<and> main good_init [traffic_fail_iter, quiet_iter 1600000000 True None] =
       Pending (run_state (main good_init [traffic_fail_iter, quiet_iter 1600000000 True None]))
   \<and> \<not> terminationRequired
         (run_state (main good_init [traffic_fail_iter, quiet_iter 1600000000 True None]))
   \<and> traffic_colors
        (calls (run_state (main good_init [traffic_fail_iter, quiet_iter 1600000000 True None])))
       = [LedBlinkUtility_Colors_Green]
   \<and> count_list
        (calls (run_state (main good_init [traffic_fail_iter, quiet_iter 1600000000 True None])))
        WaitForEventAndCallHandler = 2"
  by (simp add: run_defs traffic_fail_iter_def main_def UltrasonicTimerEventHandler_def
      GetUltrasonicReading_def echo_env_def poll_loop.simps TimerSubtract_nsec normalized_def
      classify_and_report_def ReportStatusToIotHub_def)

end
